theory Spec2Isabelle
  imports Complex_Main
begin

section \<open>Python strings\<close>

text \<open>
  A string is its UTF-8 text, one \<open>char\<close> for each byte. \<^verbatim>\<open>endswith\<close>, \<^verbatim>\<open>rsplit\<close> and
  \<^verbatim>\<open>replace\<close>, called with ASCII arguments as \<^verbatim>\<open>server.py\<close> calls them, act on the bytes
  as Python's act on the code points, since an ASCII byte never lies inside the encoding of
  another character. \<^verbatim>\<open>lower()\<close> is different: it changes letters beyond ASCII too, so it
  is not defined here but taken as a parameter of the handlers.
\<close>

definition endswith :: "string \<Rightarrow> string \<Rightarrow> bool" where
  "endswith s suf \<longleftrightarrow> length suf \<le> length s \<and> drop (length s - length suf) s = suf"

definition endswith_any :: "string \<Rightarrow> string list \<Rightarrow> bool" where
  "endswith_any s sufs \<longleftrightarrow> list_ex (endswith s) sufs"

text \<open>\<^verbatim>\<open>s.rsplit('.', 1)[0]\<close>: the text before the last dot, or all of \<open>s\<close> when it has none.\<close>

definition rsplit_dot_head :: "string \<Rightarrow> string" where
  "rsplit_dot_head s =
     (if CHR ''.'' \<in> set s then rev (tl (dropWhile (\<lambda>c. c \<noteq> CHR ''.'') (rev s))) else s)"

text \<open>\<^verbatim>\<open>s.replace(' ', '_')\<close>.\<close>

definition replace_space :: "string \<Rightarrow> string" where
  "replace_space s = map (\<lambda>c. if c = CHR '' '' then CHR ''_'' else c) s"

section \<open>Exceptions, responses and the handler's effects\<close>

text \<open>
  The instances of \<^verbatim>\<open>Exception\<close>, in the classes \<^verbatim>\<open>server.py\<close> tells apart.
  \<open>HTTPException\<close> carries its status code and detail; the other two carry their message,
  which is what \<^verbatim>\<open>str(e)\<close> gives. \<open>Exception\<close> stands for every other subclass of
  \<^verbatim>\<open>Exception\<close>: all three are caught by \<^verbatim>\<open>except Exception\<close>.
\<close>

datatype py_exception =
    HTTPException nat string
  | SQLSecurityError string
  | Exception string

text \<open>
  What \<^verbatim>\<open>except Exception\<close> does not catch: the subclasses of \<^verbatim>\<open>BaseException\<close> that are
  not subclasses of \<^verbatim>\<open>Exception\<close>. \<^verbatim>\<open>asyncio.CancelledError\<close> is raised into a handler
  where it awaits, when the request is cancelled; the only \<^verbatim>\<open>await\<close> in the handlers
  modelled here is \<^verbatim>\<open>await file.read()\<close> in \<^verbatim>\<open>upload_file\<close>. The calls that do not await
  are taken to raise instances of \<^verbatim>\<open>Exception\<close> only.
\<close>

datatype base_exception = CancelledError | OtherBaseException string

datatype raised = Exc py_exception | Base base_exception

datatype sql_value = SqlNull | SqlInteger int | SqlReal real | SqlText string | SqlBlob string

type_synonym row = "(string \<times> sql_value) list"

text \<open>
  The uploaded file: its name, which may be \<^verbatim>\<open>None\<close>, and what \<^verbatim>\<open>await file.read()\<close> does,
  which is to return the content or to raise.
\<close>

record UploadFile =
  filename :: "string option"
  read_result :: "raised + string"

text \<open>The dictionary the three converters return, with the four keys the handler reads.\<close>

record ingest_result =
  res_table_name :: string
  res_schema :: "(string \<times> string) list"
  res_row_count :: nat
  res_sample_data :: "row list"

record FileUploadResponse =
  upload_table_name :: string
  upload_table_schema :: "(string \<times> string) list"
  upload_row_count :: nat
  upload_sample_data :: "row list"
  upload_error :: "string option"

text \<open>
  The dictionary \<^verbatim>\<open>get_database_schema()\<close> returns: under \<^verbatim>\<open>'tables'\<close>, for each table its
  columns with their declared types and, when the key is there, its row count.
\<close>

record table_info =
  info_columns :: "(string \<times> string) list"
  info_row_count :: "nat option"

record schema_info =
  tables :: "(string \<times> table_info) list"

text \<open>The dictionary \<^verbatim>\<open>execute_sql_safely(sql)\<close> returns.\<close>

record sql_result =
  result_results :: "row list"
  result_columns :: "string list"
  result_error :: "string option"

record QueryResponse =
  query_sql :: string
  query_results :: "row list"
  query_columns :: "string list"
  query_row_count :: nat
  query_execution_time_ms :: real
  query_error :: "string option"

record ColumnInfo =
  column_name :: string
  column_type :: string
  nullable :: bool
  primary_key :: bool

record TableSchema =
  schema_name :: string
  schema_columns :: "ColumnInfo list"
  schema_row_count :: nat
  created_at :: int

record DatabaseSchemaResponse =
  response_tables :: "TableSchema list"
  total_tables :: nat
  schema_error :: "string option"

record Response =
  content :: string
  media_type :: string
  headers :: "(string \<times> string) list"

text \<open>
  Every call the handlers make to a function defined outside \<^verbatim>\<open>server.py\<close> is recorded,
  in order, with the arguments that matter.
\<close>

datatype collaborator_call =
    Call_file_read
  | Call_convert_csv_to_sqlite string
  | Call_convert_jsonl_to_sqlite string
  | Call_convert_json_to_sqlite string
  | Call_validate_identifier string string
  | Call_connect
  | Call_check_table_exists string
  | Call_execute_query_safely string "(string \<times> string) list" bool
  | Call_commit
  | Call_close
  | Call_generate_csv_from_table string
  | Call_generate_json_from_table string
  | Call_get_database_schema
  | Call_generate_sql
  | Call_execute_sql_safely string

datatype log_record =
    ERROR string
  | INFO_file_upload FileUploadResponse
  | INFO_query_processed string nat real
  | INFO_schema_retrieved nat
  | INFO_table_deleted string

text \<open>
  What a request can change or observe: the SQLite database behind \<^verbatim>\<open>db/database.db\<close>,
  the calls made so far, the log, and how often the clock has been read.
\<close>

record 'st world =
  store :: 'st
  calls :: "collaborator_call list"
  logged :: "log_record list"
  ticks :: nat

type_synonym ('a, 'st) handler = "'st world \<Rightarrow> (py_exception + 'a) \<times> 'st world"

text \<open>
  A handler that awaits can also be left by a \<open>base_exception\<close>. Returning, raising,
  sequencing, recording a call and logging are the same for both kinds of handler.
\<close>

type_synonym ('a, 'st) awaiting_handler = "'st world \<Rightarrow> (raised + 'a) \<times> 'st world"

definition returns :: "'a \<Rightarrow> 'st world \<Rightarrow> ('e + 'a) \<times> 'st world" where
  "returns x w = (Inr x, w)"

definition raise :: "'e \<Rightarrow> 'st world \<Rightarrow> ('e + 'a) \<times> 'st world" where
  "raise e w = (Inl e, w)"

definition and_then ::
  "('st world \<Rightarrow> ('e + 'a) \<times> 'st world) \<Rightarrow> ('a \<Rightarrow> 'st world \<Rightarrow> ('e + 'b) \<times> 'st world)
     \<Rightarrow> 'st world \<Rightarrow> ('e + 'b) \<times> 'st world" where
  "and_then m f w = (case m w of (Inl e, w') \<Rightarrow> (Inl e, w') | (Inr x, w') \<Rightarrow> f x w')"

definition try_except :: "('a, 'st) handler \<Rightarrow> (py_exception \<Rightarrow> ('a, 'st) handler) \<Rightarrow> ('a, 'st) handler" where
  "try_except m h w = (case m w of (Inl e, w') \<Rightarrow> h e w' | (Inr x, w') \<Rightarrow> (Inr x, w'))"

text \<open>
  \<^verbatim>\<open>try: ... except Exception as e: ...\<close> around a body that awaits: an instance of
  \<^verbatim>\<open>Exception\<close> goes to the handler \<open>h\<close>, a \<open>base_exception\<close> passes through.
\<close>

definition except_Exception ::
  "('a, 'st) awaiting_handler \<Rightarrow> (py_exception \<Rightarrow> ('a, 'st) awaiting_handler) \<Rightarrow> ('a, 'st) awaiting_handler" where
  "except_Exception m h w =
     (case m w of
        (Inl (Exc e), w') \<Rightarrow> h e w'
      | (Inl (Base b), w') \<Rightarrow> (Inl (Base b), w')
      | (Inr x, w') \<Rightarrow> (Inr x, w'))"

text \<open>A step that does not await, inside a handler that does.\<close>

definition no_await :: "('a, 'st) handler \<Rightarrow> ('a, 'st) awaiting_handler" where
  "no_await m w = (case m w of (Inl e, w') \<Rightarrow> (Inl (Exc e), w') | (Inr x, w') \<Rightarrow> (Inr x, w'))"

definition called :: "collaborator_call \<Rightarrow> 'st world \<Rightarrow> ('e + unit) \<times> 'st world" where
  "called c w = (Inr (), w\<lparr>calls := calls w @ [c]\<rparr>)"

definition logger :: "log_record \<Rightarrow> 'st world \<Rightarrow> ('e + unit) \<times> 'st world" where
  "logger r w = (Inr (), w\<lparr>logged := logged w @ [r]\<rparr>)"

definition outcome :: "'e + 'a \<Rightarrow> 'st world \<Rightarrow> ('e + 'a) \<times> 'st world" where
  "outcome r w = (r, w)"

definition on_store :: "('st \<Rightarrow> (py_exception + 'a) \<times> 'st) \<Rightarrow> ('a, 'st) handler" where
  "on_store f w = (case f (store w) of (r, s') \<Rightarrow> (r, w\<lparr>store := s'\<rparr>))"

definition reading :: "('st \<Rightarrow> py_exception + 'a) \<Rightarrow> ('a, 'st) handler" where
  "reading f w = (f (store w), w)"

definition may_raise :: "py_exception option \<Rightarrow> (unit, 'st) handler" where
  "may_raise r = outcome (case r of None \<Rightarrow> Inr () | Some e \<Rightarrow> Inl e)"

section \<open>The collaborators of \<^verbatim>\<open>server.py\<close>\<close>

text \<open>
  The functions \<^verbatim>\<open>server.py\<close> imports from \<^verbatim>\<open>core.*\<close>, \<^verbatim>\<open>sqlite3\<close>,
  \<^verbatim>\<open>traceback\<close> and \<^verbatim>\<open>datetime\<close> are parameters of the handlers: each either raises
  or returns, and those that write to the database return the new one. A statement acts
  on the database when it is executed; \<^verbatim>\<open>conn.commit()\<close> and \<^verbatim>\<open>conn.close()\<close> are
  recorded as calls and taken not to fail, as are the constructors of the response
  models and the logger.
  \<open>http_exception_str\<close> is the framework's \<^verbatim>\<open>HTTPException.__str__\<close>, \<open>lower\<close> is
  Python's \<^verbatim>\<open>str.lower\<close> and \<open>now\<close> the clock, as the value (in microseconds) of its n-th
  reading.
\<close>

record ('st, 'req) env =
  http_exception_str :: "nat \<Rightarrow> string \<Rightarrow> string"
  lower :: "string \<Rightarrow> string"
  format_exc :: "py_exception \<Rightarrow> string"
  now :: "nat \<Rightarrow> int"
  convert_csv_to_sqlite :: "string \<Rightarrow> string \<Rightarrow> 'st \<Rightarrow> (py_exception + ingest_result) \<times> 'st"
  convert_jsonl_to_sqlite :: "string \<Rightarrow> string \<Rightarrow> 'st \<Rightarrow> (py_exception + ingest_result) \<times> 'st"
  convert_json_to_sqlite :: "string \<Rightarrow> string \<Rightarrow> 'st \<Rightarrow> (py_exception + ingest_result) \<times> 'st"
  get_database_schema :: "'st \<Rightarrow> py_exception + schema_info"
  generate_sql :: "'req \<Rightarrow> schema_info \<Rightarrow> py_exception + string"
  execute_sql_safely :: "string \<Rightarrow> 'st \<Rightarrow> (py_exception + sql_result) \<times> 'st"
  validate_identifier :: "string \<Rightarrow> string \<Rightarrow> py_exception option"
  connect :: "'st \<Rightarrow> py_exception option"
  check_table_exists :: "string \<Rightarrow> 'st \<Rightarrow> py_exception + bool"
  execute_query_safely ::
    "string \<Rightarrow> (string \<times> string) list \<Rightarrow> bool \<Rightarrow> 'st \<Rightarrow> (py_exception + unit) \<times> 'st"
  generate_csv_from_table :: "string \<Rightarrow> 'st \<Rightarrow> py_exception + string"
  generate_json_from_table :: "string \<Rightarrow> 'st \<Rightarrow> py_exception + string"

definition str :: "('st, 'req) env \<Rightarrow> py_exception \<Rightarrow> string" where
  "str env e =
     (case e of
        HTTPException status detail \<Rightarrow> http_exception_str env status detail
      | SQLSecurityError msg \<Rightarrow> msg
      | Exception msg \<Rightarrow> msg)"

section \<open>\<^verbatim>\<open>upload_file\<close>\<close>

text \<open>\<^verbatim>\<open>file.filename.rsplit('.', 1)[0].lower().replace(' ', '_')\<close>.\<close>

definition table_name_of_filename :: "('st, 'req) env \<Rightarrow> string \<Rightarrow> string" where
  "table_name_of_filename env fn = replace_space (lower env (rsplit_dot_head fn))"

definition upload_failed :: "string \<Rightarrow> FileUploadResponse" where
  "upload_failed msg =
     \<lparr>upload_table_name = [], upload_table_schema = [], upload_row_count = 0,
      upload_sample_data = [], upload_error = Some msg\<rparr>"

text \<open>
  The body of the \<^verbatim>\<open>try\<close>. A file name that is \<^verbatim>\<open>None\<close> has no \<^verbatim>\<open>endswith\<close>, which
  raises an \<^verbatim>\<open>AttributeError\<close>.
\<close>

definition upload_file_try ::
  "('st, 'req) env \<Rightarrow> UploadFile \<Rightarrow> (FileUploadResponse, 'st) awaiting_handler" where
  "upload_file_try env file =
     and_then (case filename file of
                 None \<Rightarrow> raise (Exc (Exception (CHR 0x27 # ''NoneType'' @ CHR 0x27
                                                   # '' object has no attribute ''
                                                   @ CHR 0x27 # ''endswith'' @ [CHR 0x27])))
               | Some fn \<Rightarrow> returns fn) (\<lambda>fn.
     and_then (if \<not> endswith_any fn [''.csv'', ''.json'', ''.jsonl'']
               then raise (Exc (HTTPException 400 ''Only .csv, .json, and .jsonl files are supported''))
               else returns ()) (\<lambda>_.
     and_then (returns (table_name_of_filename env fn)) (\<lambda>table_name.
     and_then (and_then (called Call_file_read) (\<lambda>_. outcome (read_result file))) (\<lambda>content.
     and_then (no_await
                (if endswith fn ''.csv''
                 then and_then (called (Call_convert_csv_to_sqlite table_name))
                        (\<lambda>_. on_store (convert_csv_to_sqlite env content table_name))
                 else if endswith fn ''.jsonl''
                 then and_then (called (Call_convert_jsonl_to_sqlite table_name))
                        (\<lambda>_. on_store (convert_jsonl_to_sqlite env content table_name))
                 else and_then (called (Call_convert_json_to_sqlite table_name))
                        (\<lambda>_. on_store (convert_json_to_sqlite env content table_name)))) (\<lambda>result.
     and_then (returns \<lparr>upload_table_name = res_table_name result,
                        upload_table_schema = res_schema result,
                        upload_row_count = res_row_count result,
                        upload_sample_data = res_sample_data result,
                        upload_error = None\<rparr>) (\<lambda>response.
     and_then (logger (INFO_file_upload response)) (\<lambda>_.
     returns response)))))))"

definition upload_file ::
  "('st, 'req) env \<Rightarrow> UploadFile \<Rightarrow> (FileUploadResponse, 'st) awaiting_handler" where
  "upload_file env file =
     except_Exception (upload_file_try env file) (\<lambda>e.
       and_then (logger (ERROR (''[ERROR] File upload failed: '' @ str env e))) (\<lambda>_.
       and_then (logger (ERROR (''[ERROR] Full traceback:'' @ CHR 0x0A # format_exc env e))) (\<lambda>_.
       returns (upload_failed (str env e)))))"

section \<open>\<^verbatim>\<open>process_natural_language_query\<close>\<close>

definition datetime_now :: "('st, 'req) env \<Rightarrow> (int, 'st) handler" where
  "datetime_now env w = (Inr (now env (ticks w)), w\<lparr>ticks := Suc (ticks w)\<rparr>)"

text \<open>\<^verbatim>\<open>if result['error']\<close>: \<^verbatim>\<open>None\<close> and the empty string are both false.\<close>

definition raise_if_error :: "string option \<Rightarrow> (unit, 'st) handler" where
  "raise_if_error err =
     (case err of
        None \<Rightarrow> returns ()
      | Some msg \<Rightarrow> if msg = [] then returns () else raise (Exception msg))"

definition query_failed :: "string \<Rightarrow> QueryResponse" where
  "query_failed msg =
     \<lparr>query_sql = [], query_results = [], query_columns = [], query_row_count = 0,
      query_execution_time_ms = 0, query_error = Some msg\<rparr>"

definition process_natural_language_query_try ::
  "('st, 'req) env \<Rightarrow> 'req \<Rightarrow> (QueryResponse, 'st) handler" where
  "process_natural_language_query_try env request =
     and_then (and_then (called Call_get_database_schema)
                 (\<lambda>_. reading (get_database_schema env))) (\<lambda>schema_info.
     and_then (and_then (called Call_generate_sql)
                 (\<lambda>_. outcome (generate_sql env request schema_info))) (\<lambda>sql.
     and_then (datetime_now env) (\<lambda>start_time.
     and_then (and_then (called (Call_execute_sql_safely sql))
                 (\<lambda>_. on_store (execute_sql_safely env sql))) (\<lambda>result.
     and_then (datetime_now env) (\<lambda>end_time.
     and_then (returns (real_of_int (end_time - start_time) / 1000)) (\<lambda>execution_time.
     and_then (raise_if_error (result_error result)) (\<lambda>_.
     and_then (returns \<lparr>query_sql = sql,
                        query_results = result_results result,
                        query_columns = result_columns result,
                        query_row_count = length (result_results result),
                        query_execution_time_ms = execution_time,
                        query_error = None\<rparr>) (\<lambda>response.
     and_then (logger (INFO_query_processed sql (length (result_results result)) execution_time)) (\<lambda>_.
     returns response)))))))))"

definition process_natural_language_query ::
  "('st, 'req) env \<Rightarrow> 'req \<Rightarrow> (QueryResponse, 'st) handler" where
  "process_natural_language_query env request =
     try_except (process_natural_language_query_try env request) (\<lambda>e.
       and_then (logger (ERROR (''[ERROR] Query processing failed: '' @ str env e))) (\<lambda>_.
       and_then (logger (ERROR (''[ERROR] Full traceback:'' @ CHR 0x0A # format_exc env e))) (\<lambda>_.
       returns (query_failed (str env e)))))"

section \<open>\<^verbatim>\<open>get_database_schema_endpoint\<close>\<close>

definition column_infos :: "(string \<times> string) list \<Rightarrow> ColumnInfo list" where
  "column_infos cols =
     map (\<lambda>(col_name, col_type).
            \<lparr>column_name = col_name, column_type = col_type, nullable = True, primary_key = False\<rparr>)
         cols"

text \<open>
  The \<open>TableSchema\<close> built for one table; \<open>t\<close> is the value of \<^verbatim>\<open>datetime.now()\<close>, and
  \<^verbatim>\<open>table_info.get('row_count', 0)\<close> is 0 when the key is missing.
\<close>

definition table_schema :: "int \<Rightarrow> string \<Rightarrow> table_info \<Rightarrow> TableSchema" where
  "table_schema t table_name info =
     \<lparr>schema_name = table_name,
      schema_columns = column_infos (info_columns info),
      schema_row_count = (case info_row_count info of None \<Rightarrow> 0 | Some n \<Rightarrow> n),
      created_at = t\<rparr>"

text \<open>
  The loop over \<^verbatim>\<open>schema['tables'].items()\<close>, with the list \<^verbatim>\<open>tables\<close> it appends to.
  \<^verbatim>\<open>datetime.now()\<close> is read once in every iteration.
\<close>

fun schema_loop ::
  "('st, 'req) env \<Rightarrow> TableSchema list \<Rightarrow> (string \<times> table_info) list \<Rightarrow> (TableSchema list, 'st) handler" where
  "schema_loop env acc [] = returns acc"
| "schema_loop env acc ((table_name, info) # rest) =
     and_then (datetime_now env) (\<lambda>t.
     schema_loop env (acc @ [table_schema t table_name info]) rest)"

definition get_database_schema_endpoint_try ::
  "('st, 'req) env \<Rightarrow> (DatabaseSchemaResponse, 'st) handler" where
  "get_database_schema_endpoint_try env =
     and_then (and_then (called Call_get_database_schema)
                 (\<lambda>_. reading (get_database_schema env))) (\<lambda>schema.
     and_then (schema_loop env [] (tables schema)) (\<lambda>tbls.
     and_then (returns \<lparr>response_tables = tbls, total_tables = length tbls,
                        schema_error = None\<rparr>) (\<lambda>response.
     and_then (logger (INFO_schema_retrieved (length tbls))) (\<lambda>_.
     returns response))))"

definition get_database_schema_endpoint ::
  "('st, 'req) env \<Rightarrow> (DatabaseSchemaResponse, 'st) handler" where
  "get_database_schema_endpoint env =
     try_except (get_database_schema_endpoint_try env) (\<lambda>e.
       and_then (logger (ERROR (''[ERROR] Schema retrieval failed: '' @ str env e))) (\<lambda>_.
       and_then (logger (ERROR (''[ERROR] Full traceback:'' @ CHR 0x0A # format_exc env e))) (\<lambda>_.
       returns \<lparr>response_tables = [], total_tables = 0, schema_error = Some (str env e)\<rparr>)))"

section \<open>\<^verbatim>\<open>delete_table\<close>, \<^verbatim>\<open>export_table\<close> and \<^verbatim>\<open>export_table_json\<close>\<close>

definition quoted :: "string \<Rightarrow> string" where
  "quoted s = CHR 0x27 # s @ [CHR 0x27]"

definition table_not_found :: "string \<Rightarrow> py_exception" where
  "table_not_found table_name = HTTPException 404 (''Table '' @ quoted table_name @ '' not found'')"

definition do_validate_identifier :: "('st, 'req) env \<Rightarrow> string \<Rightarrow> (unit, 'st) handler" where
  "do_validate_identifier env table_name =
     and_then (called (Call_validate_identifier table_name ''table''))
       (\<lambda>_. may_raise (validate_identifier env table_name ''table''))"

definition do_connect :: "('st, 'req) env \<Rightarrow> (unit, 'st) handler" where
  "do_connect env = and_then (called Call_connect) (\<lambda>_. reading (\<lambda>s. case connect env s of None \<Rightarrow> Inr () | Some e \<Rightarrow> Inl e))"

definition do_check_table_exists :: "('st, 'req) env \<Rightarrow> string \<Rightarrow> (bool, 'st) handler" where
  "do_check_table_exists env table_name =
     and_then (called (Call_check_table_exists table_name))
       (\<lambda>_. reading (check_table_exists env table_name))"

definition delete_table_try :: "('st, 'req) env \<Rightarrow> string \<Rightarrow> (string, 'st) handler" where
  "delete_table_try env table_name =
     and_then (try_except (do_validate_identifier env table_name) (\<lambda>e.
                 case e of
                   SQLSecurityError msg \<Rightarrow> raise (HTTPException 400 (str env e))
                 | _ \<Rightarrow> raise e)) (\<lambda>_.
     and_then (do_connect env) (\<lambda>_.
     and_then (do_check_table_exists env table_name) (\<lambda>found.
     and_then (if \<not> found
               then and_then (called Call_close) (\<lambda>_. raise (table_not_found table_name))
               else returns ()) (\<lambda>_.
     and_then (and_then (called (Call_execute_query_safely ''DROP TABLE IF EXISTS {table}''
                                   [(''table'', table_name)] True))
                 (\<lambda>_. on_store (execute_query_safely env ''DROP TABLE IF EXISTS {table}''
                                   [(''table'', table_name)] True))) (\<lambda>_.
     and_then (called Call_commit) (\<lambda>_.
     and_then (called Call_close) (\<lambda>_.
     and_then (logger (INFO_table_deleted table_name)) (\<lambda>_.
     returns (''Table '' @ quoted table_name @ '' deleted successfully'')))))))))"

text \<open>
  The two handlers of an outer \<^verbatim>\<open>try\<close>: \<^verbatim>\<open>except HTTPException: raise\<close> first, then
  \<^verbatim>\<open>except Exception as e\<close>, which logs and raises status 500.
\<close>

definition reraise_http_or_500 ::
  "('st, 'req) env \<Rightarrow> string \<Rightarrow> string \<Rightarrow> py_exception \<Rightarrow> ('a, 'st) handler" where
  "reraise_http_or_500 env log_prefix detail_prefix e =
     (case e of
        HTTPException status detail \<Rightarrow> raise e
      | _ \<Rightarrow>
          and_then (logger (ERROR (log_prefix @ str env e))) (\<lambda>_.
          and_then (logger (ERROR (''[ERROR] Full traceback:'' @ CHR 0x0A # format_exc env e))) (\<lambda>_.
          raise (HTTPException 500 (detail_prefix @ str env e)))))"

definition is_http_exception :: "py_exception \<Rightarrow> bool" where
  "is_http_exception e = (case e of HTTPException status detail \<Rightarrow> True | _ \<Rightarrow> False)"

text \<open>A lone \<^verbatim>\<open>except Exception as e\<close>, which catches an \<open>HTTPException\<close> as well.\<close>

definition always_500 ::
  "('st, 'req) env \<Rightarrow> string \<Rightarrow> string \<Rightarrow> py_exception \<Rightarrow> ('a, 'st) handler" where
  "always_500 env log_prefix detail_prefix e =
     and_then (logger (ERROR (log_prefix @ str env e))) (\<lambda>_.
     and_then (logger (ERROR (''[ERROR] Full traceback:'' @ CHR 0x0A # format_exc env e))) (\<lambda>_.
     raise (HTTPException 500 (detail_prefix @ str env e))))"

definition delete_table :: "('st, 'req) env \<Rightarrow> string \<Rightarrow> (string, 'st) handler" where
  "delete_table env table_name =
     try_except (delete_table_try env table_name)
       (reraise_http_or_500 env ''[ERROR] Table deletion failed: '' ''Error deleting table: '')"

definition export_table_try :: "('st, 'req) env \<Rightarrow> string \<Rightarrow> (Response, 'st) handler" where
  "export_table_try env table_name =
     and_then (do_validate_identifier env table_name) (\<lambda>_.
     and_then (do_connect env) (\<lambda>_.
     and_then (do_check_table_exists env table_name) (\<lambda>found.
     and_then (if \<not> found
               then and_then (called Call_close) (\<lambda>_. raise (table_not_found table_name))
               else returns ()) (\<lambda>_.
     and_then (and_then (called (Call_generate_csv_from_table table_name))
                 (\<lambda>_. reading (generate_csv_from_table env table_name))) (\<lambda>csv_data.
     and_then (called Call_close) (\<lambda>_.
     returns \<lparr>content = csv_data, media_type = ''text/csv'',
              headers = [(''Content-Disposition'',
                          ''attachment; filename='' @ [CHR 0x22] @ table_name @ ''_export.csv'' @ [CHR 0x22])]\<rparr>))))))"

definition export_table :: "('st, 'req) env \<Rightarrow> string \<Rightarrow> (Response, 'st) handler" where
  "export_table env table_name =
     try_except (export_table_try env table_name)
       (reraise_http_or_500 env ''[ERROR] Table export failed: '' ''Error exporting table: '')"

definition export_table_json_try :: "('st, 'req) env \<Rightarrow> string \<Rightarrow> (Response, 'st) handler" where
  "export_table_json_try env table_name =
     and_then (do_validate_identifier env table_name) (\<lambda>_.
     and_then (do_connect env) (\<lambda>_.
     and_then (do_check_table_exists env table_name) (\<lambda>found.
     and_then (if \<not> found
               then and_then (called Call_close) (\<lambda>_. raise (table_not_found table_name))
               else returns ()) (\<lambda>_.
     and_then (and_then (called (Call_generate_json_from_table table_name))
                 (\<lambda>_. reading (generate_json_from_table env table_name))) (\<lambda>json_data.
     and_then (called Call_close) (\<lambda>_.
     returns \<lparr>content = json_data, media_type = ''application/json'',
              headers = [(''Content-Disposition'',
                          ''attachment; filename='' @ [CHR 0x22] @ table_name @ ''_export.json'' @ [CHR 0x22])]\<rparr>))))))"

definition export_table_json :: "('st, 'req) env \<Rightarrow> string \<Rightarrow> (Response, 'st) handler" where
  "export_table_json env table_name =
     try_except (export_table_json_try env table_name)
       (always_500 env ''[ERROR] Table JSON export failed: '' ''Error exporting table as JSON: '')"

section \<open>The SQL security layer\<close>

text \<open>
  \<^verbatim>\<open>core/sql_security.py\<close>, which defines \<^verbatim>\<open>validate_identifier\<close>,
  \<^verbatim>\<open>check_table_exists\<close> and \<^verbatim>\<open>execute_query_safely\<close>, is not among the sources. The
  definitions of this section follow the specification (sections 3, 4 and 7) instead; their
  names start with \<open>spec_\<close>.
\<close>

text \<open>
  Modelled from the spec: the two kinds of identifier (section 4.1) and the error kinds of
  the taxonomy (section 7).
\<close>

datatype identifier_kind = Table | Column

datatype security_error =
    InvalidIdentifierError
  | UnboundPlaceholderError
  | UnvalidatedIdentifierError
  | RejectedStatementError
  | DdlNotPermittedError
  | NotFoundError
  | SyntaxError
  | ConstraintViolation
  | TimeoutError
  | StoreUnavailableError
  | UnknownExecutionError

text \<open>
  Modelled from the spec: the maximum length of an identifier and the reserved SQL keywords,
  which the specification requires and does not list.
\<close>

record limits =
  max_length :: nat
  reserved_keywords :: "string list"

text \<open>Modelled from the spec: the characters \<^verbatim>\<open>[A-Za-z0-9_]\<close> of section 4.1, and the digits.\<close>

definition identifier_char :: "char \<Rightarrow> bool" where
  "identifier_char c \<longleftrightarrow>
     c \<in> set (''abcdefghijklmnopqrstuvwxyz'' @ ''ABCDEFGHIJKLMNOPQRSTUVWXYZ'' @ ''0123456789'' @ ''_'')"

definition digit_char :: "char \<Rightarrow> bool" where
  "digit_char c \<longleftrightarrow> c \<in> set ''0123456789''"

text \<open>
  Modelled from the spec: \<^verbatim>\<open>validate_identifier(raw, kind)\<close> of section 4.1, which ``fails
  with InvalidIdentifierError when raw is empty, exceeds a maximum length, contains any
  character outside [A-Za-z0-9_], starts with a digit, or equals a reserved SQL keyword''.
\<close>

definition spec_validate_identifier :: "limits \<Rightarrow> string \<Rightarrow> identifier_kind \<Rightarrow> security_error + string" where
  "spec_validate_identifier cfg raw kind =
     (case raw of
        [] \<Rightarrow> Inl InvalidIdentifierError
      | c # cs \<Rightarrow>
          if max_length cfg < length raw then Inl InvalidIdentifierError
          else if \<not> list_all identifier_char raw then Inl InvalidIdentifierError
          else if digit_char c then Inl InvalidIdentifierError
          else if raw \<in> set (reserved_keywords cfg) then Inl InvalidIdentifierError
          else Inr raw)"

text \<open>
  Modelled from the spec: \<^verbatim>\<open>render\<close> of section 4.2, for the identifier placeholders
  \<^verbatim>\<open>{name}\<close> that \<^verbatim>\<open>server.py\<close> writes. A placeholder with no binding fails with
  \<open>UnboundPlaceholderError\<close> (so does a brace that is never closed: the engine fails
  closed), one bound to a string that is not a valid identifier with
  \<open>UnvalidatedIdentifierError\<close>. Value placeholders stay in the text: their values are
  bound by the store.
\<close>

function spec_render :: "limits \<Rightarrow> string \<Rightarrow> (string \<times> string) list \<Rightarrow> security_error + string" where
  "spec_render cfg [] identifiers = Inr []"
| "spec_render cfg (c # cs) identifiers =
     (if c = CHR ''{'' then
        (case dropWhile (\<lambda>x. x \<noteq> CHR ''}'') cs of
           [] \<Rightarrow> Inl UnboundPlaceholderError
         | closing # rest \<Rightarrow>
             (case map_of identifiers (takeWhile (\<lambda>x. x \<noteq> CHR ''}'') cs) of
                None \<Rightarrow> Inl UnboundPlaceholderError
              | Some ident \<Rightarrow>
                  (case spec_validate_identifier cfg ident Table of
                     Inl e \<Rightarrow> Inl UnvalidatedIdentifierError
                   | Inr valid \<Rightarrow>
                       (case spec_render cfg rest identifiers of
                          Inl e \<Rightarrow> Inl e
                        | Inr text \<Rightarrow> Inr (valid @ text)))))
      else (case spec_render cfg cs identifiers of
              Inl e \<Rightarrow> Inl e
            | Inr text \<Rightarrow> Inr (c # text)))"
  by pat_completeness auto
termination
proof (relation "measure (\<lambda>(cfg, template, identifiers). length template)")
  show "wf (measure (\<lambda>(cfg, template, identifiers). length template))"
    by simp
next
  fix cfg :: limits and c :: char and cs :: string and identifiers :: "(string \<times> string) list"
    and closing :: char and rest :: string and ident valid :: string
  assume "dropWhile (\<lambda>x. x \<noteq> CHR ''}'') cs = closing # rest"
  then have "length (closing # rest) \<le> length cs"
    using length_dropWhile_le [of "\<lambda>x. x \<noteq> CHR ''}''" cs] by simp
  then show "((cfg, rest, identifiers), (cfg, c # cs, identifiers))
               \<in> measure (\<lambda>(cfg, template, identifiers). length template)"
    by simp
next
  fix cfg :: limits and c :: char and cs :: string and identifiers :: "(string \<times> string) list"
  show "((cfg, cs, identifiers), (cfg, c # cs, identifiers))
          \<in> measure (\<lambda>(cfg, template, identifiers). length template)"
    by simp
qed

text \<open>Modelled from the spec: the two classes a statement can have (section 4.3).\<close>

datatype statement_kind = READ | DDL

definition space_char :: "char \<Rightarrow> bool" where
  "space_char c \<longleftrightarrow> c \<in> set [CHR '' '', CHR 0x09, CHR 0x0A, CHR 0x0D]"

definition upper_char :: "char \<Rightarrow> char" where
  "upper_char c =
     (case map_of (zip ''abcdefghijklmnopqrstuvwxyz'' ''ABCDEFGHIJKLMNOPQRSTUVWXYZ'') c of
        None \<Rightarrow> c
      | Some u \<Rightarrow> u)"

text \<open>
  Modelled from the spec: the leading keyword of section 4.3, read without regard to case.
  It is the first word of the statement in upper case, a word being the longest run of
  letters, digits and underscores after the leading white space; \<open>after_first_word\<close> is
  what follows it, where the second word of \<^verbatim>\<open>DROP TABLE\<close> is looked for.
\<close>

definition first_word :: "string \<Rightarrow> string" where
  "first_word s = map upper_char (takeWhile identifier_char (dropWhile space_char s))"

definition after_first_word :: "string \<Rightarrow> string" where
  "after_first_word s = dropWhile identifier_char (dropWhile space_char s)"

text \<open>
  Modelled from the spec: \<^verbatim>\<open>classify\<close> of section 4.3, ``by inspecting the statement's
  leading keyword (case-insensitive) against a fixed allow-list: SELECT, WITH to READ;
  DROP TABLE, CREATE TABLE, ALTER TABLE to DDL; anything else (INSERT, UPDATE, DELETE, ATTACH,
  multi-statement batches, PRAGMA) to RejectedStatementError''. A statement that holds the
  separator \<^verbatim>\<open>;\<close> is a batch.
\<close>

definition spec_classify :: "string \<Rightarrow> security_error + statement_kind" where
  "spec_classify statement =
     (if CHR '';'' \<in> set statement then Inl RejectedStatementError
      else if first_word statement = ''SELECT'' \<or> first_word statement = ''WITH'' then Inr READ
      else if (first_word statement = ''DROP'' \<or> first_word statement = ''CREATE''
                 \<or> first_word statement = ''ALTER'')
              \<and> first_word (after_first_word statement) = ''TABLE'' then Inr DDL
      else Inl RejectedStatementError)"

text \<open>
  Modelled from the spec: the relational store of sections 3 and 4.5, as the tables its
  catalog lists, each with its columns (name and declared type) and its rows.
\<close>

record stored_table =
  table_columns :: "(string \<times> string) list"
  table_rows :: "sql_value list list"

type_synonym database = "(string \<times> stored_table) list"

record result_set =
  rs_columns :: "string list"
  rs_rows :: "sql_value list list"

text \<open>
  Modelled from the spec: the store-level failures that section 4.4 tells apart, each with
  the store's raw diagnostic. The store's own execution of a statement (SQLite's) is a
  parameter \<open>engine\<close> of the executor: given the database, the statement and its bound
  values it fails, or returns the result and the new database.
\<close>

datatype store_failure =
    Malformed string
  | ConstraintFailed string
  | NoSuchObject string
  | TimedOut string
  | OtherFailure string

type_synonym engine = "database \<Rightarrow> string \<Rightarrow> sql_value list \<Rightarrow> store_failure + result_set \<times> database"

text \<open>
  Modelled from the spec: a connection to the store, as the database and the statements
  submitted to the store through it.
\<close>

record connection =
  database :: database
  submitted :: "string list"

text \<open>
  Modelled from the spec: the classification of store-level failures in section 4.4. The
  raw diagnostic is dropped.
\<close>

definition spec_classify_failure :: "store_failure \<Rightarrow> security_error" where
  "spec_classify_failure f =
     (case f of
        Malformed d \<Rightarrow> SyntaxError
      | ConstraintFailed d \<Rightarrow> ConstraintViolation
      | NoSuchObject d \<Rightarrow> NotFoundError
      | TimedOut d \<Rightarrow> TimeoutError
      | OtherFailure d \<Rightarrow> UnknownExecutionError)"

text \<open>
  Modelled from the spec: the Safe Executor of section 4.4. It submits the statement; on a
  failure of the store the statement is abandoned (the database is as before) and the
  failure is classified; on success the columns and rows are returned.
\<close>

definition spec_safe_execute ::
  "engine \<Rightarrow> connection \<Rightarrow> string \<Rightarrow> sql_value list \<Rightarrow> (security_error + result_set) \<times> connection" where
  "spec_safe_execute engine conn statement params =
     (case engine (database conn) statement params of
        Inl failure \<Rightarrow>
          (Inl (spec_classify_failure failure), conn\<lparr>submitted := submitted conn @ [statement]\<rparr>)
      | Inr (rs, db') \<Rightarrow>
          (Inr rs, conn\<lparr>database := db', submitted := submitted conn @ [statement]\<rparr>))"

text \<open>
  Modelled from the spec: \<^verbatim>\<open>execute_query_safely(conn, template, identifier_params,
  value_params, allow_ddl)\<close> of section 6, in the order of section 2: Statement Template
  Engine, Policy Gate, Safe Executor.
\<close>

definition spec_execute_query_safely ::
  "limits \<Rightarrow> engine \<Rightarrow> connection \<Rightarrow> string \<Rightarrow> (string \<times> string) list \<Rightarrow> (string \<times> sql_value) list \<Rightarrow> bool
     \<Rightarrow> (security_error + result_set) \<times> connection" where
  "spec_execute_query_safely cfg engine conn template identifier_params value_params allow_ddl =
     (case spec_render cfg template identifier_params of
        Inl e \<Rightarrow> (Inl e, conn)
      | Inr statement \<Rightarrow>
          (case spec_classify statement of
             Inl e \<Rightarrow> (Inl e, conn)
           | Inr kind \<Rightarrow>
               if kind = DDL \<and> \<not> allow_ddl then (Inl DdlNotPermittedError, conn)
               else spec_safe_execute engine conn statement (map snd value_params)))"

text \<open>Modelled from the spec: \<^verbatim>\<open>table_exists\<close> of section 4.5, a look at the catalog.\<close>

definition spec_table_exists :: "connection \<Rightarrow> string \<Rightarrow> bool" where
  "spec_table_exists conn name \<longleftrightarrow> name \<in> set (map fst (database conn))"

definition without_table :: "string \<Rightarrow> database \<Rightarrow> database" where
  "without_table name db = filter (\<lambda>entry. fst entry \<noteq> name) db"

definition no_rows :: result_set where
  "no_rows = \<lparr>rs_columns = [], rs_rows = []\<rparr>"

text \<open>
  What SQL asks of the store for \<^verbatim>\<open>DROP TABLE IF EXISTS t\<close>: the statement succeeds with
  no rows and leaves the database without \<open>t\<close>.
\<close>

definition drops_if_exists :: "engine \<Rightarrow> database \<Rightarrow> string \<Rightarrow> bool" where
  "drops_if_exists engine db t \<longleftrightarrow>
     engine db (''DROP TABLE IF EXISTS '' @ t) [] = Inr (no_rows, without_table t db)"

text \<open>
  The handlers of \<^verbatim>\<open>server.py\<close> with the security layer of the specification behind them:
  the store is a connection, and a security error reaches the handler as an
  \<open>SQLSecurityError\<close> whose message is \<open>text e\<close>.
\<close>

definition secured ::
  "limits \<Rightarrow> engine \<Rightarrow> (security_error \<Rightarrow> string) \<Rightarrow> (connection, 'req) env \<Rightarrow> (connection, 'req) env" where
  "secured cfg engine text base =
     base\<lparr>validate_identifier :=
            (\<lambda>raw kind.
               case spec_validate_identifier cfg raw (if kind = ''column'' then Column else Table) of
                 Inl e \<Rightarrow> Some (SQLSecurityError (text e))
               | Inr valid \<Rightarrow> None),
          check_table_exists := (\<lambda>name conn. Inr (spec_table_exists conn name)),
          execute_query_safely :=
            (\<lambda>template identifier_params allow_ddl conn.
               case spec_execute_query_safely cfg engine conn template identifier_params [] allow_ddl of
                 (Inl e, conn') \<Rightarrow> (Inl (SQLSecurityError (text e)), conn')
               | (Inr rs, conn') \<Rightarrow> (Inr (), conn'))\<rparr>"

section \<open>Concrete collaborators\<close>

text \<open>
  Small instances of the parameters, on which the handlers and the security layer can be
  run. In \<open>demo_env\<close> the store is the list of its table names and a request is its SQL.
\<close>

text \<open>
  \<^verbatim>\<open>HTTPException.__str__\<close> as the framework defines it,
  \<^verbatim>\<open>f"{self.status_code}: {self.detail}"\<close>, for the three-digit status codes.
\<close>

definition status_code_text :: "nat \<Rightarrow> string" where
  "status_code_text n =
     [''0123456789'' ! (n div 100 mod 10), ''0123456789'' ! (n div 10 mod 10), ''0123456789'' ! (n mod 10)]"

definition framework_str :: "nat \<Rightarrow> string \<Rightarrow> string" where
  "framework_str status detail = status_code_text status @ '': '' @ detail"

text \<open>\<^verbatim>\<open>str.lower\<close> on ASCII text, which is all that the names used below hold.\<close>

definition lower_char :: "char \<Rightarrow> char" where
  "lower_char c =
     (case map_of (zip ''ABCDEFGHIJKLMNOPQRSTUVWXYZ'' ''abcdefghijklmnopqrstuvwxyz'') c of
        None \<Rightarrow> c
      | Some l \<Rightarrow> l)"

definition ascii_lower :: "string \<Rightarrow> string" where
  "ascii_lower s = map lower_char s"

definition demo_env :: "(string list, string) env" where
  "demo_env =
     \<lparr>http_exception_str = framework_str,
      lower = ascii_lower,
      format_exc = (\<lambda>e. ''Traceback (most recent call last): ...''),
      now = (\<lambda>n. 1000 * int n),
      convert_csv_to_sqlite =
        (\<lambda>content table_name s.
           (Inr \<lparr>res_table_name = table_name, res_schema = [], res_row_count = 0, res_sample_data = []\<rparr>,
            table_name # s)),
      convert_jsonl_to_sqlite =
        (\<lambda>content table_name s.
           (Inr \<lparr>res_table_name = table_name, res_schema = [], res_row_count = 0, res_sample_data = []\<rparr>,
            table_name # s)),
      convert_json_to_sqlite =
        (\<lambda>content table_name s.
           (Inr \<lparr>res_table_name = table_name, res_schema = [], res_row_count = 0, res_sample_data = []\<rparr>,
            table_name # s)),
      get_database_schema =
        (\<lambda>s. Inr \<lparr>tables = map (\<lambda>n. (n, \<lparr>info_columns = [(''id'', ''INTEGER'')], info_row_count = None\<rparr>)) s\<rparr>),
      generate_sql = (\<lambda>request schema. Inr request),
      execute_sql_safely =
        (\<lambda>sql s.
           (Inr (if sql = ''SELECT id FROM users''
                 then \<lparr>result_results = [[(''id'', SqlInteger 1)]], result_columns = [''id''], result_error = None\<rparr>
                 else if sql = ''SELECT id FROM users WHERE 1 = 0''
                 then \<lparr>result_results = [], result_columns = [''id''], result_error = None\<rparr>
                 else \<lparr>result_results = [], result_columns = [], result_error = Some ''no such table: missing''\<rparr>),
            s)),
      validate_identifier =
        (\<lambda>name kind. if name \<noteq> [] \<and> list_all identifier_char name then None
                      else Some (SQLSecurityError ''Invalid table name'')),
      connect = (\<lambda>s. None),
      check_table_exists = (\<lambda>name s. Inr (name \<in> set s)),
      execute_query_safely =
        (\<lambda>template identifier_params allow_ddl s.
           (Inr (), filter (\<lambda>n. map_of identifier_params ''table'' \<noteq> Some n) s)),
      generate_csv_from_table = (\<lambda>name s. Inr ''id''),
      generate_json_from_table = (\<lambda>name s. Inr ''[]'')\<rparr>"

text \<open>The same, with a store that cannot be read and refuses to drop a table.\<close>

definition broken_env :: "(string list, string) env" where
  "broken_env =
     demo_env\<lparr>get_database_schema := (\<lambda>s. Inl (Exception ''unable to open database file'')),
              execute_query_safely :=
                (\<lambda>template identifier_params allow_ddl s. (Inl (Exception ''database is locked''), s))\<rparr>"

definition demo_world :: "string list world" where
  "demo_world = \<lparr>store = [''users'', ''orders''], calls = [], logged = [], ticks = 0\<rparr>"

definition demo_limits :: limits where
  "demo_limits = \<lparr>max_length = 64, reserved_keywords = [''SELECT'', ''TABLE'', ''DROP'']\<rparr>"

definition demo_table :: stored_table where
  "demo_table = \<lparr>table_columns = [(''id'', ''INTEGER'')], table_rows = [[SqlInteger 1]]\<rparr>"

definition demo_connection :: connection where
  "demo_connection = \<lparr>database = [(''users'', demo_table), (''orders'', demo_table)], submitted = []\<rparr>"

text \<open>
  A stand-in for the store, for running the security layer on a concrete request. It knows
  one statement, \<^verbatim>\<open>DROP TABLE IF EXISTS t\<close>, which it executes as SQL defines it; it is
  not SQLite, and it is run on no other statement below.
\<close>

definition demo_engine :: engine where
  "demo_engine db statement params =
     (if take 21 statement = ''DROP TABLE IF EXISTS ''
      then Inr (no_rows, without_table (drop 21 statement) db)
      else Inl (OtherFailure ''not a statement of the stand-in''))"

text \<open>Collaborators over a connection, for the handlers with the security layer behind them.\<close>

definition plain_env :: "(connection, string) env" where
  "plain_env =
     \<lparr>http_exception_str = framework_str,
      lower = ascii_lower,
      format_exc = (\<lambda>e. ''Traceback (most recent call last): ...''),
      now = (\<lambda>n. 1000 * int n),
      convert_csv_to_sqlite = (\<lambda>content table_name conn. (Inl (Exception ''no converter''), conn)),
      convert_jsonl_to_sqlite = (\<lambda>content table_name conn. (Inl (Exception ''no converter''), conn)),
      convert_json_to_sqlite = (\<lambda>content table_name conn. (Inl (Exception ''no converter''), conn)),
      get_database_schema = (\<lambda>conn. Inr \<lparr>tables = []\<rparr>),
      generate_sql = (\<lambda>request schema. Inr request),
      execute_sql_safely =
        (\<lambda>sql conn. (Inr \<lparr>result_results = [], result_columns = [], result_error = None\<rparr>, conn)),
      validate_identifier = (\<lambda>name kind. None),
      connect = (\<lambda>conn. None),
      check_table_exists = (\<lambda>name conn. Inr True),
      execute_query_safely = (\<lambda>template identifier_params allow_ddl conn. (Inr (), conn)),
      generate_csv_from_table = (\<lambda>name conn. Inr []),
      generate_json_from_table = (\<lambda>name conn. Inr [])\<rparr>"

definition secured_env :: "(connection, string) env" where
  "secured_env = secured demo_limits demo_engine (\<lambda>e. ''rejected by the security layer'') plain_env"

definition secured_world :: "connection world" where
  "secured_world = \<lparr>store = demo_connection, calls = [], logged = [], ticks = 0\<rparr>"

section \<open>Properties\<close>

subsection \<open>Unfolding the handlers\<close>

lemmas handler_defs = and_then_def try_except_def returns_def raise_def called_def logger_def
  outcome_def on_store_def reading_def may_raise_def datetime_now_def raise_if_error_def str_def
  except_Exception_def no_await_def

subsection \<open>Failures reach the caller as the text of the exception\<close>

lemma query_catches:
  assumes "process_natural_language_query_try env request w = (Inl e, w')"
  shows "process_natural_language_query env request w =
           (Inr (query_failed (str env e)),
            w'\<lparr>logged := logged w' @ [ERROR (''[ERROR] Query processing failed: '' @ str env e),
                                       ERROR (''[ERROR] Full traceback:'' @ CHR 0x0A # format_exc env e)]\<rparr>)"
  using assms
  by (simp add: process_natural_language_query_def try_except_def and_then_def logger_def returns_def)





lemma query_try_error_in_result:
  assumes "get_database_schema env (store w) = Inr schema"
    and "generate_sql env request schema = Inr sql"
    and "execute_sql_safely env sql (store w) = (Inr result, s')"
    and "result_error result = Some msg" and "msg \<noteq> []"
  shows "process_natural_language_query_try env request w =
           (Inl (Exception msg),
            w\<lparr>calls := calls w @ [Call_get_database_schema, Call_generate_sql, Call_execute_sql_safely sql],
              ticks := Suc (Suc (ticks w)), store := s'\<rparr>)"
  using assms
  by (simp add: process_natural_language_query_try_def and_then_def called_def reading_def outcome_def
      datetime_now_def on_store_def raise_if_error_def raise_def returns_def)


lemma delete_table_wraps:
  assumes "delete_table_try env table_name w = (Inl e, w')" and "\<not> is_http_exception e"
  shows "delete_table env table_name w =
           (Inl (HTTPException 500 (''Error deleting table: '' @ str env e)),
            w'\<lparr>logged := logged w' @ [ERROR (''[ERROR] Table deletion failed: '' @ str env e),
                                       ERROR (''[ERROR] Full traceback:'' @ CHR 0x0A # format_exc env e)]\<rparr>)"
  using assms
  by (cases e)
     (simp_all add: delete_table_def reraise_http_or_500_def is_http_exception_def
        try_except_def and_then_def logger_def raise_def)

lemma delete_table_try_execute_raises:
  assumes "validate_identifier env table_name ''table'' = None"
    and "connect env (store w) = None"
    and "check_table_exists env table_name (store w) = Inr True"
    and "execute_query_safely env ''DROP TABLE IF EXISTS {table}'' [(''table'', table_name)] True (store w) = (Inl e, s')"
  shows "delete_table_try env table_name w =
           (Inl e, w\<lparr>calls := calls w @ [Call_validate_identifier table_name ''table'', Call_connect,
                                        Call_check_table_exists table_name,
                                        Call_execute_query_safely ''DROP TABLE IF EXISTS {table}''
                                          [(''table'', table_name)] True],
                     store := s'\<rparr>)"
  using assms
  by (simp add: delete_table_try_def do_validate_identifier_def do_connect_def
      do_check_table_exists_def handler_defs)

text \<open>
  Claim C4, as amended. The handlers do not sanitize a failure: its text \<^verbatim>\<open>str(e)\<close> is what
  the caller receives. Whenever the body of the query handler raises \<open>e\<close> (in particular
  when \<^verbatim>\<open>execute_sql_safely\<close> reports an error text, which the handler raises as an
  exception), the response has an empty \<open>sql\<close>, no results, no columns and the error
  \<^verbatim>\<open>str(e)\<close>; whenever the body of \<^verbatim>\<open>delete_table\<close> raises an \<open>e\<close> that is not an
  \<open>HTTPException\<close> (in particular when \<^verbatim>\<open>execute_query_safely\<close> does), the handler raises
  status 500 with the detail \<^verbatim>\<open>Error deleting table: \<close> followed by \<^verbatim>\<open>str(e)\<close>. In both
  handlers the formatted traceback goes to the log and to nothing else.
\<close>

theorem failure_returns_exception_text:
  "(\<forall>e w'. process_natural_language_query_try env request w = (Inl e, w') \<longrightarrow>
      process_natural_language_query env request w =
        (Inr \<lparr>query_sql = [], query_results = [], query_columns = [], query_row_count = 0,
              query_execution_time_ms = 0, query_error = Some (str env e)\<rparr>,
         w'\<lparr>logged := logged w' @ [ERROR (''[ERROR] Query processing failed: '' @ str env e),
                                    ERROR (''[ERROR] Full traceback:'' @ CHR 0x0A # format_exc env e)]\<rparr>)) \<and>
   (\<forall>schema sql result s' msg.
      get_database_schema env (store w) = Inr schema \<and>
      generate_sql env request schema = Inr sql \<and>
      execute_sql_safely env sql (store w) = (Inr result, s') \<and>
      result_error result = Some msg \<and> msg \<noteq> [] \<longrightarrow>
      fst (process_natural_language_query env request w) =
        Inr \<lparr>query_sql = [], query_results = [], query_columns = [], query_row_count = 0,
             query_execution_time_ms = 0, query_error = Some msg\<rparr>) \<and>
   (\<forall>e w'. delete_table_try env table_name w = (Inl e, w') \<and> \<not> is_http_exception e \<longrightarrow>
      delete_table env table_name w =
        (Inl (HTTPException 500 (''Error deleting table: '' @ str env e)),
         w'\<lparr>logged := logged w' @ [ERROR (''[ERROR] Table deletion failed: '' @ str env e),
                                    ERROR (''[ERROR] Full traceback:'' @ CHR 0x0A # format_exc env e)]\<rparr>)) \<and>
   (\<forall>e s'.
      validate_identifier env table_name ''table'' = None \<and>
      connect env (store w) = None \<and>
      check_table_exists env table_name (store w) = Inr True \<and>
      execute_query_safely env ''DROP TABLE IF EXISTS {table}'' [(''table'', table_name)] True (store w) = (Inl e, s') \<and>
      \<not> is_http_exception e \<longrightarrow>
      fst (delete_table env table_name w) =
        Inl (HTTPException 500 (''Error deleting table: '' @ str env e)))"
proof (intro conjI allI impI)
  fix e w'
  assume "process_natural_language_query_try env request w = (Inl e, w')"
  then show "process_natural_language_query env request w =
        (Inr \<lparr>query_sql = [], query_results = [], query_columns = [], query_row_count = 0,
              query_execution_time_ms = 0, query_error = Some (str env e)\<rparr>,
         w'\<lparr>logged := logged w' @ [ERROR (''[ERROR] Query processing failed: '' @ str env e),
                                    ERROR (''[ERROR] Full traceback:'' @ CHR 0x0A # format_exc env e)]\<rparr>)"
    by (simp add: query_catches query_failed_def)
next
  fix schema sql result s' msg
  assume "get_database_schema env (store w) = Inr schema \<and>
      generate_sql env request schema = Inr sql \<and>
      execute_sql_safely env sql (store w) = (Inr result, s') \<and>
      result_error result = Some msg \<and> msg \<noteq> []"
  then have "process_natural_language_query_try env request w =
           (Inl (Exception msg),
            w\<lparr>calls := calls w @ [Call_get_database_schema, Call_generate_sql, Call_execute_sql_safely sql],
              ticks := Suc (Suc (ticks w)), store := s'\<rparr>)"
    by (simp add: query_try_error_in_result)
  then show "fst (process_natural_language_query env request w) =
        Inr \<lparr>query_sql = [], query_results = [], query_columns = [], query_row_count = 0,
             query_execution_time_ms = 0, query_error = Some msg\<rparr>"
    by (simp add: query_catches query_failed_def str_def)
next
  fix e w'
  assume "delete_table_try env table_name w = (Inl e, w') \<and> \<not> is_http_exception e"
  then show "delete_table env table_name w =
        (Inl (HTTPException 500 (''Error deleting table: '' @ str env e)),
         w'\<lparr>logged := logged w' @ [ERROR (''[ERROR] Table deletion failed: '' @ str env e),
                                    ERROR (''[ERROR] Full traceback:'' @ CHR 0x0A # format_exc env e)]\<rparr>)"
    by (simp add: delete_table_wraps)
next
  fix e s'
  assume a: "validate_identifier env table_name ''table'' = None \<and>
      connect env (store w) = None \<and>
      check_table_exists env table_name (store w) = Inr True \<and>
      execute_query_safely env ''DROP TABLE IF EXISTS {table}'' [(''table'', table_name)] True (store w) = (Inl e, s') \<and>
      \<not> is_http_exception e"
  then have "delete_table_try env table_name w =
           (Inl e, w\<lparr>calls := calls w @ [Call_validate_identifier table_name ''table'', Call_connect,
                                        Call_check_table_exists table_name,
                                        Call_execute_query_safely ''DROP TABLE IF EXISTS {table}''
                                          [(''table'', table_name)] True],
                     store := s'\<rparr>)"
    by (simp add: delete_table_try_execute_raises)
  then show "fst (delete_table env table_name w) =
        Inl (HTTPException 500 (''Error deleting table: '' @ str env e))"
    using a by (simp add: delete_table_wraps)
qed

theorem failure_returns_exception_text_witness:
  "process_natural_language_query_try broken_env ''SELECT id FROM users'' demo_world =
     (Inl (Exception ''unable to open database file''), demo_world\<lparr>calls := [Call_get_database_schema]\<rparr>) \<and>
   fst (process_natural_language_query broken_env ''SELECT id FROM users'' demo_world) =
     Inr \<lparr>query_sql = [], query_results = [], query_columns = [], query_row_count = 0,
          query_execution_time_ms = 0, query_error = Some ''unable to open database file''\<rparr> \<and>
   validate_identifier broken_env ''users'' ''table'' = None \<and>
   connect broken_env (store demo_world) = None \<and>
   check_table_exists broken_env ''users'' (store demo_world) = Inr True \<and>
   execute_query_safely broken_env ''DROP TABLE IF EXISTS {table}'' [(''table'', ''users'')] True (store demo_world) =
     (Inl (Exception ''database is locked''), store demo_world) \<and>
   \<not> is_http_exception (Exception ''database is locked'') \<and>
   fst (delete_table broken_env ''users'' demo_world) =
     Inl (HTTPException 500 ''Error deleting table: database is locked'')"
proof -
  have body: "process_natural_language_query_try broken_env ''SELECT id FROM users'' demo_world =
     (Inl (Exception ''unable to open database file''), demo_world\<lparr>calls := [Call_get_database_schema]\<rparr>)"
    by (simp add: process_natural_language_query_try_def handler_defs broken_env_def demo_env_def demo_world_def)
  have pre: "validate_identifier broken_env ''users'' ''table'' = None \<and>
      connect broken_env (store demo_world) = None \<and>
      check_table_exists broken_env ''users'' (store demo_world) = Inr True \<and>
      execute_query_safely broken_env ''DROP TABLE IF EXISTS {table}'' [(''table'', ''users'')] True (store demo_world) =
        (Inl (Exception ''database is locked''), store demo_world) \<and>
      \<not> is_http_exception (Exception ''database is locked'')"
    by (simp add: broken_env_def demo_env_def demo_world_def identifier_char_def is_http_exception_def)
  have msgs: "str broken_env (Exception ''unable to open database file'') = ''unable to open database file''"
    "str broken_env (Exception ''database is locked'') = ''database is locked''"
    by (simp_all add: str_def)
  note all = failure_returns_exception_text [of broken_env "''SELECT id FROM users''" demo_world "''users''"]
  have "fst (process_natural_language_query broken_env ''SELECT id FROM users'' demo_world) =
     Inr \<lparr>query_sql = [], query_results = [], query_columns = [], query_row_count = 0,
          query_execution_time_ms = 0, query_error = Some ''unable to open database file''\<rparr>"
    using all [THEN conjunct1, rule_format, OF body] by (simp add: msgs)
  moreover have "fst (delete_table broken_env ''users'' demo_world) =
     Inl (HTTPException 500 ''Error deleting table: database is locked'')"
    using all [THEN conjunct2, THEN conjunct2, THEN conjunct2, rule_format, OF pre] by (simp add: msgs)
  ultimately show ?thesis
    using body pre by simp
qed

text \<open>
  The claim as first stated, that the raw text of an exception is never returned, fails:
  a store that cannot be opened, or that refuses to drop a table, has its own message
  returned to the caller.
\<close>

theorem raw_exception_text_reaches_caller:
  "get_database_schema broken_env (store demo_world) = Inl (Exception ''unable to open database file'') \<and>
   fst (process_natural_language_query broken_env ''SELECT id FROM users'' demo_world) =
     Inr \<lparr>query_sql = [], query_results = [], query_columns = [], query_row_count = 0,
          query_execution_time_ms = 0, query_error = Some ''unable to open database file''\<rparr> \<and>
   execute_query_safely broken_env ''DROP TABLE IF EXISTS {table}'' [(''table'', ''users'')] True (store demo_world) =
     (Inl (Exception ''database is locked''), store demo_world) \<and>
   fst (delete_table broken_env ''users'' demo_world) =
     Inl (HTTPException 500 ''Error deleting table: database is locked'')"
proof (intro conjI)
  show "get_database_schema broken_env (store demo_world) = Inl (Exception ''unable to open database file'')"
    by (simp add: broken_env_def)
  show "fst (process_natural_language_query broken_env ''SELECT id FROM users'' demo_world) =
     Inr \<lparr>query_sql = [], query_results = [], query_columns = [], query_row_count = 0,
          query_execution_time_ms = 0, query_error = Some ''unable to open database file''\<rparr>"
    by (simp add: process_natural_language_query_def process_natural_language_query_try_def handler_defs
        broken_env_def demo_env_def demo_world_def query_failed_def)
  show "execute_query_safely broken_env ''DROP TABLE IF EXISTS {table}'' [(''table'', ''users'')] True (store demo_world) =
     (Inl (Exception ''database is locked''), store demo_world)"
    by (simp add: broken_env_def)
  show "fst (delete_table broken_env ''users'' demo_world) =
     Inl (HTTPException 500 ''Error deleting table: database is locked'')"
    by (simp add: delete_table_def delete_table_try_def reraise_http_or_500_def do_validate_identifier_def
        do_connect_def do_check_table_exists_def handler_defs identifier_char_def
        broken_env_def demo_env_def demo_world_def)
qed

subsection \<open>The existence check before a delete or an export\<close>

lemmas gate_defs = do_validate_identifier_def do_connect_def do_check_table_exists_def
  table_not_found_def reraise_http_or_500_def always_500_def

lemma delete_table_missing:
  assumes "validate_identifier env t ''table'' = None"
    and "connect env (store w) = None"
    and "check_table_exists env t (store w) = Inr False"
  shows "delete_table env t w =
           (Inl (HTTPException 404 (''Table '' @ quoted t @ '' not found'')),
            w\<lparr>calls := calls w @ [Call_validate_identifier t ''table'', Call_connect,
                                  Call_check_table_exists t, Call_close]\<rparr>)"
  using assms
  by (simp add: delete_table_def delete_table_try_def gate_defs handler_defs)

lemma export_table_missing:
  assumes "validate_identifier env t ''table'' = None"
    and "connect env (store w) = None"
    and "check_table_exists env t (store w) = Inr False"
  shows "export_table env t w =
           (Inl (HTTPException 404 (''Table '' @ quoted t @ '' not found'')),
            w\<lparr>calls := calls w @ [Call_validate_identifier t ''table'', Call_connect,
                                  Call_check_table_exists t, Call_close]\<rparr>)"
  using assms
  by (simp add: export_table_def export_table_try_def gate_defs handler_defs)

lemma delete_table_invalid:
  assumes "validate_identifier env t ''table'' = Some (SQLSecurityError msg)"
  shows "delete_table env t w =
           (Inl (HTTPException 400 msg), w\<lparr>calls := calls w @ [Call_validate_identifier t ''table'']\<rparr>)"
  using assms
  by (simp add: delete_table_def delete_table_try_def gate_defs handler_defs)

text \<open>
  \<^verbatim>\<open>export_table_json\<close> has no \<^verbatim>\<open>except HTTPException: raise\<close>: the 404 it raises for a
  missing table is caught by its own \<^verbatim>\<open>except Exception\<close> and becomes status 500.
\<close>

lemma export_table_json_missing:
  assumes "validate_identifier env t ''table'' = None"
    and "connect env (store w) = None"
    and "check_table_exists env t (store w) = Inr False"
  shows "export_table_json env t w =
           (Inl (HTTPException 500 (''Error exporting table as JSON: ''
                   @ http_exception_str env 404 (''Table '' @ quoted t @ '' not found''))),
            w\<lparr>calls := calls w @ [Call_validate_identifier t ''table'', Call_connect,
                                  Call_check_table_exists t, Call_close],
              logged := logged w @
                [ERROR (''[ERROR] Table JSON export failed: ''
                          @ http_exception_str env 404 (''Table '' @ quoted t @ '' not found'')),
                 ERROR (''[ERROR] Full traceback:'' @ CHR 0x0A
                          # format_exc env (HTTPException 404 (''Table '' @ quoted t @ '' not found'')))]\<rparr>)"
  using assms
  by (simp add: export_table_json_def export_table_json_try_def gate_defs handler_defs)

text \<open>
  Claim C7. A request that names a table the store does not have, under a name that passes
  \<^verbatim>\<open>validate_identifier\<close>, is stopped by the existence check in all three handlers: the
  connection is closed, the store is left as it was, and neither
  \<^verbatim>\<open>execute_query_safely\<close> nor a generator is called. \<^verbatim>\<open>delete_table\<close> and
  \<^verbatim>\<open>export_table\<close> then fail with status 404, \<^verbatim>\<open>Table '<name>' not found\<close>. The third
  handler, \<^verbatim>\<open>export_table_json\<close>, raises the same 404 but catches it itself and fails with
  status 500, whose detail holds the text of the 404.
\<close>

theorem export_table_json_missing_table_is_500:
  assumes "validate_identifier env t ''table'' = None"
    and "connect env (store w) = None"
    and "check_table_exists env t (store w) = Inr False"
  shows "fst (delete_table env t w) = Inl (HTTPException 404 (''Table '' @ quoted t @ '' not found'')) \<and>
         fst (export_table env t w) = Inl (HTTPException 404 (''Table '' @ quoted t @ '' not found'')) \<and>
         fst (export_table_json env t w) =
           Inl (HTTPException 500 (''Error exporting table as JSON: ''
                  @ http_exception_str env 404 (''Table '' @ quoted t @ '' not found''))) \<and>
         calls (snd (delete_table env t w)) =
           calls w @ [Call_validate_identifier t ''table'', Call_connect,
                  Call_check_table_exists t, Call_close] \<and>
         calls (snd (export_table env t w)) =
           calls w @ [Call_validate_identifier t ''table'', Call_connect,
                  Call_check_table_exists t, Call_close] \<and>
         calls (snd (export_table_json env t w)) =
           calls w @ [Call_validate_identifier t ''table'', Call_connect,
                  Call_check_table_exists t, Call_close] \<and>
         store (snd (delete_table env t w)) = store w \<and>
         store (snd (export_table env t w)) = store w \<and>
         store (snd (export_table_json env t w)) = store w"
  by (simp add: delete_table_missing [OF assms] export_table_missing [OF assms]
      export_table_json_missing [OF assms])

theorem export_table_json_missing_table_is_500_witness:
  "validate_identifier demo_env ''missing'' ''table'' = None \<and>
   connect demo_env (store demo_world) = None \<and>
   check_table_exists demo_env ''missing'' (store demo_world) = Inr False \<and>
   fst (delete_table demo_env ''missing'' demo_world) =
     Inl (HTTPException 404 (''Table '' @ [CHR 0x27] @ ''missing'' @ [CHR 0x27] @ '' not found'')) \<and>
   fst (export_table demo_env ''missing'' demo_world) =
     Inl (HTTPException 404 (''Table '' @ [CHR 0x27] @ ''missing'' @ [CHR 0x27] @ '' not found'')) \<and>
   fst (export_table_json demo_env ''missing'' demo_world) =
     Inl (HTTPException 500 (''Error exporting table as JSON: 404: Table '' @ [CHR 0x27] @ ''missing''
            @ [CHR 0x27] @ '' not found'')) \<and>
   calls (snd (export_table_json demo_env ''missing'' demo_world)) =
     [Call_validate_identifier ''missing'' ''table'', Call_connect,
      Call_check_table_exists ''missing'', Call_close] \<and>
   store (snd (export_table_json demo_env ''missing'' demo_world)) = [''users'', ''orders'']"
proof -
  have valid: "validate_identifier demo_env ''missing'' ''table'' = None"
    by (simp add: demo_env_def identifier_char_def)
  have opens: "connect demo_env (store demo_world) = None"
    by (simp add: demo_env_def)
  have missing: "check_table_exists demo_env ''missing'' (store demo_world) = Inr False"
    by (simp add: demo_env_def demo_world_def)
  have msg: "\<And>detail. http_exception_str demo_env 404 detail = ''404: '' @ detail"
    by (simp add: demo_env_def framework_str_def status_code_text_def)
  have start: "calls demo_world = []" "store demo_world = [''users'', ''orders'']"
    by (simp_all add: demo_world_def)
  show ?thesis
    using export_table_json_missing_table_is_500 [OF valid opens missing] valid opens missing
    by (simp add: msg start quoted_def)
qed

subsection \<open>The identifier validator\<close>

lemma spec_validate_identifier_cases:
  "spec_validate_identifier cfg raw kind = Inr raw \<or>
   spec_validate_identifier cfg raw kind = Inl InvalidIdentifierError"
  by (cases raw) (simp_all add: spec_validate_identifier_def)

lemma spec_validate_identifier_fails_iff:
  "spec_validate_identifier cfg raw kind = Inl InvalidIdentifierError \<longleftrightarrow>
     raw = [] \<or> max_length cfg < length raw \<or> (\<exists>c \<in> set raw. \<not> identifier_char c) \<or>
     (raw \<noteq> [] \<and> digit_char (hd raw)) \<or> raw \<in> set (reserved_keywords cfg)"
proof (cases raw)
  case Nil
  then show ?thesis by (simp add: spec_validate_identifier_def)
next
  case (Cons c cs)
  have "list_all identifier_char raw \<longleftrightarrow> \<not> (\<exists>c \<in> set raw. \<not> identifier_char c)"
    by (simp add: list_all_iff)
  then show ?thesis
    using Cons by (auto simp: spec_validate_identifier_def)
qed

lemma semicolon_is_no_identifier_char: "\<not> identifier_char CHR '';''"
  by (simp add: identifier_char_def)

lemma secured_validate_identifier:
  "validate_identifier (secured cfg engine text base) raw kind =
     (case spec_validate_identifier cfg raw (if kind = ''column'' then Column else Table) of
        Inl e \<Rightarrow> Some (SQLSecurityError (text e))
      | Inr valid \<Rightarrow> None)"
  by (simp add: secured_def)

text \<open>
  Claim C1. \<^verbatim>\<open>validate_identifier(raw, kind)\<close> fails with \<open>InvalidIdentifierError\<close> exactly
  when \<open>raw\<close> is empty, is longer than the maximum length, has a character other than a
  letter, a digit or an underscore, starts with a digit, or is a reserved keyword; it has
  no other error, and when it does not fail it returns \<open>raw\<close>. The string
  \<^verbatim>\<open>users; DROP TABLE users\<close> is rejected under every configuration. In
  \<^verbatim>\<open>delete_table\<close>, a name with a character outside the identifier characters is answered
  with status 400 when the only call made is the validation: no connection has been
  opened and no statement built.
\<close>

theorem spec_validate_identifier_fails_exactly:
  "(spec_validate_identifier cfg raw kind = Inl InvalidIdentifierError \<longleftrightarrow>
      raw = [] \<or> max_length cfg < length raw \<or> (\<exists>c \<in> set raw. \<not> identifier_char c) \<or>
      (raw \<noteq> [] \<and> digit_char (hd raw)) \<or> raw \<in> set (reserved_keywords cfg)) \<and>
   (spec_validate_identifier cfg raw kind = Inr raw \<or>
    spec_validate_identifier cfg raw kind = Inl InvalidIdentifierError) \<and>
   spec_validate_identifier cfg ''users; DROP TABLE users'' kind = Inl InvalidIdentifierError \<and>
   ((\<exists>c \<in> set raw. \<not> identifier_char c) \<longrightarrow>
      spec_validate_identifier cfg raw Table = Inl InvalidIdentifierError \<and>
      delete_table (secured cfg engine text base) raw w =
        (Inl (HTTPException 400 (text InvalidIdentifierError)),
         w\<lparr>calls := calls w @ [Call_validate_identifier raw ''table'']\<rparr>))"
proof (intro conjI impI)
  show "spec_validate_identifier cfg raw kind = Inl InvalidIdentifierError \<longleftrightarrow>
      raw = [] \<or> max_length cfg < length raw \<or> (\<exists>c \<in> set raw. \<not> identifier_char c) \<or>
      (raw \<noteq> [] \<and> digit_char (hd raw)) \<or> raw \<in> set (reserved_keywords cfg)"
    by (rule spec_validate_identifier_fails_iff)
  show "spec_validate_identifier cfg raw kind = Inr raw \<or>
    spec_validate_identifier cfg raw kind = Inl InvalidIdentifierError"
    by (rule spec_validate_identifier_cases)
  have "CHR '';'' \<in> set ''users; DROP TABLE users''"
    by simp
  then have "\<exists>c \<in> set ''users; DROP TABLE users''. \<not> identifier_char c"
    using semicolon_is_no_identifier_char by blast
  then show "spec_validate_identifier cfg ''users; DROP TABLE users'' kind = Inl InvalidIdentifierError"
    by (simp only: spec_validate_identifier_fails_iff) simp
next
  assume bad: "\<exists>c \<in> set raw. \<not> identifier_char c"
  then show rejected: "spec_validate_identifier cfg raw Table = Inl InvalidIdentifierError"
    by (simp only: spec_validate_identifier_fails_iff) simp
  then have "validate_identifier (secured cfg engine text base) raw ''table'' =
      Some (SQLSecurityError (text InvalidIdentifierError))"
    by (simp add: secured_validate_identifier)
  then show "delete_table (secured cfg engine text base) raw w =
        (Inl (HTTPException 400 (text InvalidIdentifierError)),
         w\<lparr>calls := calls w @ [Call_validate_identifier raw ''table'']\<rparr>)"
    by (rule delete_table_invalid)
qed

theorem spec_validate_identifier_fails_exactly_witness:
  "(\<exists>c \<in> set ''users; DROP TABLE users''. \<not> identifier_char c) \<and>
   spec_validate_identifier demo_limits ''users; DROP TABLE users'' Table = Inl InvalidIdentifierError \<and>
   delete_table secured_env ''users; DROP TABLE users'' secured_world =
     (Inl (HTTPException 400 ''rejected by the security layer''),
      secured_world\<lparr>calls := [Call_validate_identifier ''users; DROP TABLE users'' ''table'']\<rparr>) \<and>
   spec_validate_identifier demo_limits ''orders'' Table = Inr ''orders'' \<and>
   spec_validate_identifier demo_limits ''2fast'' Column = Inl InvalidIdentifierError \<and>
   spec_validate_identifier demo_limits ''TABLE'' Table = Inl InvalidIdentifierError"
proof -
  have bad: "\<exists>c \<in> set ''users; DROP TABLE users''. \<not> identifier_char c"
    using semicolon_is_no_identifier_char by simp
  have none: "calls secured_world = []"
    by (simp add: secured_world_def)
  have a: "spec_validate_identifier demo_limits ''users; DROP TABLE users'' Table = Inl InvalidIdentifierError \<and>
      delete_table secured_env ''users; DROP TABLE users'' secured_world =
        (Inl (HTTPException 400 ''rejected by the security layer''),
         secured_world\<lparr>calls := [Call_validate_identifier ''users; DROP TABLE users'' ''table'']\<rparr>)"
    using spec_validate_identifier_fails_exactly
      [of demo_limits "''users; DROP TABLE users''" Table demo_engine "\<lambda>e. ''rejected by the security layer''"
          plain_env secured_world,
        THEN conjunct2, THEN conjunct2, THEN conjunct2, rule_format, OF bad]
    by (simp add: secured_env_def none)
  have b: "spec_validate_identifier demo_limits ''orders'' Table = Inr ''orders''"
    by (simp add: spec_validate_identifier_def demo_limits_def identifier_char_def digit_char_def)
  have c: "spec_validate_identifier demo_limits ''2fast'' Column = Inl InvalidIdentifierError"
    using spec_validate_identifier_fails_exactly [of demo_limits "''2fast''" Column, THEN conjunct1]
    by (simp add: digit_char_def)
  have d: "spec_validate_identifier demo_limits ''TABLE'' Table = Inl InvalidIdentifierError"
    using spec_validate_identifier_fails_exactly [of demo_limits "''TABLE''" Table, THEN conjunct1]
    by (simp add: demo_limits_def)
  show ?thesis
    using bad a b c d by simp
qed

subsection \<open>The policy gate rejects what is not on its list\<close>

lemma spec_render_plain:
  "CHR ''{'' \<notin> set statement \<Longrightarrow> spec_render cfg statement identifiers = Inr statement"
  by (induction statement) auto

lemma spec_classify_batch:
  "CHR '';'' \<in> set statement \<Longrightarrow> spec_classify statement = Inl RejectedStatementError"
  by (simp add: spec_classify_def)

lemma spec_classify_other:
  assumes "first_word statement \<noteq> ''SELECT''" and "first_word statement \<noteq> ''WITH''"
    and "\<not> ((first_word statement = ''DROP'' \<or> first_word statement = ''CREATE''
               \<or> first_word statement = ''ALTER'')
             \<and> first_word (after_first_word statement) = ''TABLE'')"
  shows "spec_classify statement = Inl RejectedStatementError"
  using assms by (auto simp: spec_classify_def)

lemma spec_execute_query_safely_rejected:
  assumes "spec_render cfg template identifier_params = Inr statement"
    and "spec_classify statement = Inl RejectedStatementError"
  shows "spec_execute_query_safely cfg engine conn template identifier_params value_params allow_ddl =
           (Inl RejectedStatementError, conn)"
  using assms by (simp add: spec_execute_query_safely_def)

text \<open>
  Claim C2. A statement that holds the separator \<^verbatim>\<open>;\<close>, or whose leading keyword is none of
  SELECT, WITH, DROP TABLE, CREATE TABLE and ALTER TABLE, is rejected with
  \<open>RejectedStatementError\<close> by \<^verbatim>\<open>execute_query_safely\<close>, whatever \<open>allow_ddl\<close> is, and the
  connection is returned as it was: the database is unchanged and nothing has been
  submitted to the store. The statement is the rendered template; a template with no
  placeholder is its own statement, so this holds in particular for such a statement
  that begins with INSERT, UPDATE or DELETE or holds a separator, and for the payload
  \<^verbatim>\<open>SELECT * FROM customers WHERE 1=1; DELETE FROM customers\<close>.
\<close>

theorem rejected_statement_is_never_executed:
  "(spec_render cfg template identifier_params = Inr statement \<and>
    (CHR '';'' \<in> set statement \<or>
     (first_word statement \<noteq> ''SELECT'' \<and> first_word statement \<noteq> ''WITH'' \<and>
      \<not> ((first_word statement = ''DROP'' \<or> first_word statement = ''CREATE''
             \<or> first_word statement = ''ALTER'')
           \<and> first_word (after_first_word statement) = ''TABLE''))) \<longrightarrow>
      spec_execute_query_safely cfg engine conn template identifier_params value_params allow_ddl =
        (Inl RejectedStatementError, conn)) \<and>
   (CHR ''{'' \<notin> set statement \<and>
    (first_word statement = ''INSERT'' \<or> first_word statement = ''UPDATE'' \<or>
     first_word statement = ''DELETE'' \<or> CHR '';'' \<in> set statement) \<longrightarrow>
      spec_execute_query_safely cfg engine conn statement identifier_params value_params allow_ddl =
        (Inl RejectedStatementError, conn)) \<and>
   spec_execute_query_safely cfg engine conn
       ''SELECT * FROM customers WHERE 1=1; DELETE FROM customers'' [] [] allow_ddl =
     (Inl RejectedStatementError, conn)"
proof (intro conjI impI)
  assume a: "spec_render cfg template identifier_params = Inr statement \<and>
    (CHR '';'' \<in> set statement \<or>
     (first_word statement \<noteq> ''SELECT'' \<and> first_word statement \<noteq> ''WITH'' \<and>
      \<not> ((first_word statement = ''DROP'' \<or> first_word statement = ''CREATE''
             \<or> first_word statement = ''ALTER'')
           \<and> first_word (after_first_word statement) = ''TABLE'')))"
  then have "spec_classify statement = Inl RejectedStatementError"
    using spec_classify_batch spec_classify_other by blast
  with a show "spec_execute_query_safely cfg engine conn template identifier_params value_params allow_ddl =
        (Inl RejectedStatementError, conn)"
    by (simp add: spec_execute_query_safely_rejected)
next
  assume a: "CHR ''{'' \<notin> set statement \<and>
    (first_word statement = ''INSERT'' \<or> first_word statement = ''UPDATE'' \<or>
     first_word statement = ''DELETE'' \<or> CHR '';'' \<in> set statement)"
  then have "spec_classify statement = Inl RejectedStatementError"
    by (auto simp: spec_classify_def)
  moreover have "spec_render cfg statement identifier_params = Inr statement"
    using a by (simp add: spec_render_plain)
  ultimately show "spec_execute_query_safely cfg engine conn statement identifier_params value_params allow_ddl =
        (Inl RejectedStatementError, conn)"
    by (rule spec_execute_query_safely_rejected [rotated])
next
  have "spec_render cfg ''SELECT * FROM customers WHERE 1=1; DELETE FROM customers'' [] =
      Inr ''SELECT * FROM customers WHERE 1=1; DELETE FROM customers''"
    by (rule spec_render_plain) simp
  moreover have "spec_classify ''SELECT * FROM customers WHERE 1=1; DELETE FROM customers'' =
      Inl RejectedStatementError"
    by (rule spec_classify_batch) simp
  ultimately show "spec_execute_query_safely cfg engine conn
       ''SELECT * FROM customers WHERE 1=1; DELETE FROM customers'' [] [] allow_ddl =
     (Inl RejectedStatementError, conn)"
    by (rule spec_execute_query_safely_rejected)
qed

theorem rejected_statement_is_never_executed_witness:
  "spec_render demo_limits ''INSERT INTO {table} VALUES (1)'' [(''table'', ''orders'')] =
     Inr ''INSERT INTO orders VALUES (1)'' \<and>
   first_word ''INSERT INTO orders VALUES (1)'' = ''INSERT'' \<and>
   spec_execute_query_safely demo_limits demo_engine demo_connection
       ''INSERT INTO {table} VALUES (1)'' [(''table'', ''orders'')] [] True =
     (Inl RejectedStatementError, demo_connection) \<and>
   spec_execute_query_safely demo_limits demo_engine demo_connection
       ''INSERT INTO {table} VALUES (1)'' [(''table'', ''orders'')] [] False =
     (Inl RejectedStatementError, demo_connection) \<and>
   CHR ''{'' \<notin> set ''delete from users'' \<and>
   first_word ''delete from users'' = ''DELETE'' \<and>
   spec_execute_query_safely demo_limits demo_engine demo_connection ''delete from users'' [] [] True =
     (Inl RejectedStatementError, demo_connection)"
proof -
  have rendered: "spec_render demo_limits ''INSERT INTO {table} VALUES (1)'' [(''table'', ''orders'')] =
      Inr ''INSERT INTO orders VALUES (1)''"
    by (simp add: spec_validate_identifier_def demo_limits_def identifier_char_def digit_char_def)
  have word: "first_word ''INSERT INTO orders VALUES (1)'' = ''INSERT''"
    by (simp add: first_word_def space_char_def identifier_char_def upper_char_def)
  have word': "first_word ''delete from users'' = ''DELETE''"
    by (simp add: first_word_def space_char_def identifier_char_def upper_char_def)
  have pre: "spec_render demo_limits ''INSERT INTO {table} VALUES (1)'' [(''table'', ''orders'')] =
        Inr ''INSERT INTO orders VALUES (1)'' \<and>
    (CHR '';'' \<in> set ''INSERT INTO orders VALUES (1)'' \<or>
     (first_word ''INSERT INTO orders VALUES (1)'' \<noteq> ''SELECT'' \<and>
      first_word ''INSERT INTO orders VALUES (1)'' \<noteq> ''WITH'' \<and>
      \<not> ((first_word ''INSERT INTO orders VALUES (1)'' = ''DROP'' \<or>
            first_word ''INSERT INTO orders VALUES (1)'' = ''CREATE'' \<or>
            first_word ''INSERT INTO orders VALUES (1)'' = ''ALTER'')
           \<and> first_word (after_first_word ''INSERT INTO orders VALUES (1)'') = ''TABLE'')))"
    using rendered by (simp add: word)
  have pre': "CHR ''{'' \<notin> set ''delete from users'' \<and>
    (first_word ''delete from users'' = ''INSERT'' \<or> first_word ''delete from users'' = ''UPDATE'' \<or>
     first_word ''delete from users'' = ''DELETE'' \<or> CHR '';'' \<in> set ''delete from users'')"
    by (simp add: word')
  note claim = rejected_statement_is_never_executed
  have "spec_execute_query_safely demo_limits demo_engine demo_connection
       ''INSERT INTO {table} VALUES (1)'' [(''table'', ''orders'')] [] True =
     (Inl RejectedStatementError, demo_connection)"
    by (rule claim [THEN conjunct1, rule_format, OF pre])
  moreover have "spec_execute_query_safely demo_limits demo_engine demo_connection
       ''INSERT INTO {table} VALUES (1)'' [(''table'', ''orders'')] [] False =
     (Inl RejectedStatementError, demo_connection)"
    by (rule claim [THEN conjunct1, rule_format, OF pre])
  moreover have "spec_execute_query_safely demo_limits demo_engine demo_connection ''delete from users'' [] [] True =
     (Inl RejectedStatementError, demo_connection)"
    by (rule claim [THEN conjunct2, THEN conjunct1, rule_format, OF pre'])
  ultimately show ?thesis
    using rendered word word' by simp
qed

subsection \<open>The template that drops a table\<close>

lemma valid_identifier_chars:
  "spec_validate_identifier cfg t kind = Inr t' \<Longrightarrow> list_all identifier_char t"
  by (cases t) (auto simp: spec_validate_identifier_def split: if_splits)

lemma valid_identifier_no_separator:
  assumes "spec_validate_identifier cfg t kind = Inr t'"
  shows "CHR '';'' \<notin> set t"
proof
  assume "CHR '';'' \<in> set t"
  moreover have "list_all identifier_char t"
    using assms by (rule valid_identifier_chars)
  ultimately have "identifier_char CHR '';''"
    by (simp add: list_all_iff)
  then show False
    by (simp add: identifier_char_def)
qed

lemma render_drop_template:
  assumes "spec_validate_identifier cfg t Table = Inr t"
  shows "spec_render cfg ''DROP TABLE IF EXISTS {table}'' [(''table'', t)] =
           Inr (''DROP TABLE IF EXISTS '' @ t)"
  using assms by simp

lemma classify_drop_statement:
  assumes "CHR '';'' \<notin> set t"
  shows "spec_classify (''DROP TABLE IF EXISTS '' @ t) = Inr DDL"
  using assms
  by (simp add: spec_classify_def first_word_def after_first_word_def space_char_def
      identifier_char_def upper_char_def)

lemma execute_drop_template:
  assumes "spec_validate_identifier cfg t Table = Inr t"
    and "drops_if_exists engine (database conn) t"
  shows "spec_execute_query_safely cfg engine conn ''DROP TABLE IF EXISTS {table}'' [(''table'', t)] [] True =
           (Inr no_rows,
            conn\<lparr>database := without_table t (database conn),
                 submitted := submitted conn @ [''DROP TABLE IF EXISTS '' @ t]\<rparr>)"
proof -
  have "spec_classify (''DROP TABLE IF EXISTS '' @ t) = Inr DDL"
    using assms(1) by (intro classify_drop_statement valid_identifier_no_separator)
  moreover have "engine (database conn) (''DROP TABLE IF EXISTS '' @ t) [] =
      Inr (no_rows, without_table t (database conn))"
    using assms(2) by (simp add: drops_if_exists_def)
  ultimately show ?thesis
    by (simp add: spec_execute_query_safely_def render_drop_template [OF assms(1)]
        spec_safe_execute_def del: spec_render.simps)
qed

lemma demo_engine_drops: "drops_if_exists demo_engine db t"
  by (simp add: drops_if_exists_def demo_engine_def)

subsection \<open>Dropping a table\<close>

lemma delete_table_succeeds:
  assumes "validate_identifier env t ''table'' = None"
    and "connect env (store w) = None"
    and "check_table_exists env t (store w) = Inr True"
    and "execute_query_safely env ''DROP TABLE IF EXISTS {table}'' [(''table'', t)] True (store w) = (Inr (), s')"
  shows "delete_table env t w =
           (Inr (''Table '' @ quoted t @ '' deleted successfully''),
            w\<lparr>calls := calls w @ [Call_validate_identifier t ''table'', Call_connect,
                                  Call_check_table_exists t,
                                  Call_execute_query_safely ''DROP TABLE IF EXISTS {table}'' [(''table'', t)] True,
                                  Call_commit, Call_close],
              store := s',
              logged := logged w @ [INFO_table_deleted t]\<rparr>)"
  using assms
  by (simp add: delete_table_def delete_table_try_def gate_defs handler_defs)

lemma without_table_removes:
  "\<not> spec_table_exists (conn\<lparr>database := without_table t (database conn), submitted := sent\<rparr>) t"
  by (auto simp: spec_table_exists_def without_table_def)

lemma without_table_keeps:
  "other \<noteq> t \<Longrightarrow>
   spec_table_exists (conn\<lparr>database := without_table t (database conn), submitted := sent\<rparr>) other =
   spec_table_exists conn other"
  by (auto simp: spec_table_exists_def without_table_def)

text \<open>
  Claim C6. Let \<open>t\<close> be a validated identifier naming a table that exists, on a store that
  executes \<^verbatim>\<open>DROP TABLE IF EXISTS t\<close> as SQL defines it. Then
  \<^verbatim>\<open>execute_query_safely(conn, "DROP TABLE IF EXISTS {table}", {table: t}, allow_ddl=true)\<close>
  succeeds, and on the connection it leaves \<^verbatim>\<open>table_exists(conn, t)\<close> is false while every
  other table is as before. The same holds of \<^verbatim>\<open>delete_table\<close> with this security layer
  behind it: it answers that the table was deleted, and the table is gone from the store.
\<close>

theorem drop_table_if_exists_removes_the_table:
  "(spec_validate_identifier cfg t Table = Inr t \<and> spec_table_exists conn t \<and>
    drops_if_exists engine (database conn) t \<longrightarrow>
      (\<exists>conn'. spec_execute_query_safely cfg engine conn ''DROP TABLE IF EXISTS {table}''
                   [(''table'', t)] [] True = (Inr no_rows, conn') \<and>
               \<not> spec_table_exists conn' t \<and>
               (\<forall>other. other \<noteq> t \<longrightarrow> spec_table_exists conn' other = spec_table_exists conn other))) \<and>
   (spec_validate_identifier cfg t Table = Inr t \<and> spec_table_exists (store w) t \<and>
    drops_if_exists engine (database (store w)) t \<and> connect base (store w) = None \<longrightarrow>
      fst (delete_table (secured cfg engine text base) t w) =
        Inr (''Table '' @ quoted t @ '' deleted successfully'') \<and>
      \<not> spec_table_exists (store (snd (delete_table (secured cfg engine text base) t w))) t)"
proof (intro conjI impI)
  assume a: "spec_validate_identifier cfg t Table = Inr t \<and> spec_table_exists conn t \<and>
    drops_if_exists engine (database conn) t"
  then have "spec_execute_query_safely cfg engine conn ''DROP TABLE IF EXISTS {table}'' [(''table'', t)] [] True =
      (Inr no_rows,
       conn\<lparr>database := without_table t (database conn),
            submitted := submitted conn @ [''DROP TABLE IF EXISTS '' @ t]\<rparr>)"
    by (simp add: execute_drop_template)
  then show "\<exists>conn'. spec_execute_query_safely cfg engine conn ''DROP TABLE IF EXISTS {table}''
                   [(''table'', t)] [] True = (Inr no_rows, conn') \<and>
               \<not> spec_table_exists conn' t \<and>
               (\<forall>other. other \<noteq> t \<longrightarrow> spec_table_exists conn' other = spec_table_exists conn other)"
    by (simp add: without_table_removes without_table_keeps)
next
  assume a: "spec_validate_identifier cfg t Table = Inr t \<and> spec_table_exists (store w) t \<and>
    drops_if_exists engine (database (store w)) t \<and> connect base (store w) = None"
  let ?env = "secured cfg engine text base"
  let ?after = "(store w)\<lparr>database := without_table t (database (store w)),
                           submitted := submitted (store w) @ [''DROP TABLE IF EXISTS '' @ t]\<rparr>"
  have valid: "validate_identifier ?env t ''table'' = None"
    using a by (simp add: secured_validate_identifier)
  have opened: "connect ?env (store w) = None"
    using a by (simp add: secured_def)
  have found: "check_table_exists ?env t (store w) = Inr True"
    using a by (simp add: secured_def)
  have "spec_execute_query_safely cfg engine (store w) ''DROP TABLE IF EXISTS {table}'' [(''table'', t)] [] True =
      (Inr no_rows, ?after)"
    using a by (simp add: execute_drop_template)
  then have dropped: "execute_query_safely ?env ''DROP TABLE IF EXISTS {table}'' [(''table'', t)] True (store w) =
      (Inr (), ?after)"
    by (simp add: secured_def del: spec_render.simps)
  note run = delete_table_succeeds [OF valid opened found dropped]
  show "fst (delete_table ?env t w) = Inr (''Table '' @ quoted t @ '' deleted successfully'')"
    by (simp add: run)
  show "\<not> spec_table_exists (store (snd (delete_table ?env t w))) t"
    by (simp add: run without_table_removes)
qed

theorem drop_table_if_exists_removes_the_table_witness:
  "spec_validate_identifier demo_limits ''orders'' Table = Inr ''orders'' \<and>
   spec_table_exists demo_connection ''orders'' \<and>
   drops_if_exists demo_engine (database demo_connection) ''orders'' \<and>
   (\<exists>conn'. spec_execute_query_safely demo_limits demo_engine demo_connection
               ''DROP TABLE IF EXISTS {table}'' [(''table'', ''orders'')] [] True = (Inr no_rows, conn') \<and>
            \<not> spec_table_exists conn' ''orders'' \<and> spec_table_exists conn' ''users'') \<and>
   connect plain_env (store secured_world) = None \<and>
   fst (delete_table secured_env ''orders'' secured_world) =
     Inr (''Table '' @ quoted ''orders'' @ '' deleted successfully'') \<and>
   \<not> spec_table_exists (store (snd (delete_table secured_env ''orders'' secured_world))) ''orders''"
proof -
  note claim = drop_table_if_exists_removes_the_table
  have pre: "spec_validate_identifier demo_limits ''orders'' Table = Inr ''orders'' \<and>
      spec_table_exists demo_connection ''orders'' \<and>
      drops_if_exists demo_engine (database demo_connection) ''orders''"
    by (simp add: demo_engine_drops spec_validate_identifier_def demo_limits_def identifier_char_def
        digit_char_def spec_table_exists_def demo_connection_def)
  have opened: "connect plain_env (store secured_world) = None"
    by (simp add: plain_env_def)
  have pre': "spec_validate_identifier demo_limits ''orders'' Table = Inr ''orders'' \<and>
      spec_table_exists (store secured_world) ''orders'' \<and>
      drops_if_exists demo_engine (database (store secured_world)) ''orders'' \<and>
      connect plain_env (store secured_world) = None"
    using pre opened by (simp add: secured_world_def)
  have users: "spec_table_exists demo_connection ''users''"
    by (simp add: spec_table_exists_def demo_connection_def)
  obtain conn' where "spec_execute_query_safely demo_limits demo_engine demo_connection
               ''DROP TABLE IF EXISTS {table}'' [(''table'', ''orders'')] [] True = (Inr no_rows, conn')"
    and "\<not> spec_table_exists conn' ''orders''"
    and "\<forall>other. other \<noteq> ''orders'' \<longrightarrow> spec_table_exists conn' other = spec_table_exists demo_connection other"
    using claim [THEN conjunct1, rule_format, OF pre] by (elim exE conjE) (rule that)
  then have direct: "\<exists>conn'. spec_execute_query_safely demo_limits demo_engine demo_connection
               ''DROP TABLE IF EXISTS {table}'' [(''table'', ''orders'')] [] True = (Inr no_rows, conn') \<and>
            \<not> spec_table_exists conn' ''orders'' \<and> spec_table_exists conn' ''users''"
    using users by (intro exI [of _ conn']) simp
  have handler: "fst (delete_table secured_env ''orders'' secured_world) =
       Inr (''Table '' @ quoted ''orders'' @ '' deleted successfully'') \<and>
     \<not> spec_table_exists (store (snd (delete_table secured_env ''orders'' secured_world))) ''orders''"
    using claim [THEN conjunct2, rule_format, OF pre', of "\<lambda>e. ''rejected by the security layer''"]
    by (simp add: secured_env_def)
  show ?thesis
    using pre direct opened handler by simp
qed

subsection \<open>The upload handler answers every failure\<close>

lemma upload_file_catches:
  assumes "upload_file_try env file w = (Inl (Exc e), w')"
  shows "upload_file env file w =
           (Inr (upload_failed (str env e)),
            w'\<lparr>logged := logged w' @ [ERROR (''[ERROR] File upload failed: '' @ str env e),
                                       ERROR (''[ERROR] Full traceback:'' @ CHR 0x0A # format_exc env e)]\<rparr>)"
  using assms by (simp add: upload_file_def except_Exception_def and_then_def logger_def returns_def)

lemma upload_file_unwinds:
  assumes "upload_file_try env file w = (Inl (Base b), w')"
  shows "upload_file env file w = (Inl (Base b), w')"
  using assms by (simp add: upload_file_def except_Exception_def)

lemma upload_file_passes:
  assumes "upload_file_try env file w = (Inr r, w')"
  shows "upload_file env file w = (Inr r, w')"
  using assms by (simp add: upload_file_def except_Exception_def)

lemma upload_file_no_Exception:
  "fst (upload_file env file w) \<noteq> Inl (Exc e)"
proof (cases "upload_file_try env file w")
  case (Pair res w')
  show ?thesis
  proof (cases res)
    case (Inl r)
    then show ?thesis
      using Pair by (cases r) (simp_all add: upload_file_catches upload_file_unwinds)
  next
    case (Inr r)
    then show ?thesis
      using Pair by (simp add: upload_file_passes)
  qed
qed

lemma upload_file_try_no_name:
  assumes "filename file = None"
  shows "upload_file_try env file w =
           (Inl (Exc (Exception (CHR 0x27 # ''NoneType'' @ CHR 0x27 # '' object has no attribute ''
                                   @ CHR 0x27 # ''endswith'' @ [CHR 0x27]))), w)"
  using assms by (simp add: upload_file_try_def and_then_def raise_def)

lemma upload_file_try_bad_extension:
  assumes "filename file = Some fn" and "\<not> endswith_any fn [''.csv'', ''.json'', ''.jsonl'']"
  shows "upload_file_try env file w =
           (Inl (Exc (HTTPException 400 ''Only .csv, .json, and .jsonl files are supported'')), w)"
  using assms by (simp add: upload_file_try_def and_then_def returns_def raise_def)

lemma upload_file_try_read_raises:
  assumes "filename file = Some fn" and "endswith_any fn [''.csv'', ''.json'', ''.jsonl'']"
    and "read_result file = Inl r"
  shows "upload_file_try env file w = (Inl r, w\<lparr>calls := calls w @ [Call_file_read]\<rparr>)"
  using assms
  by (simp add: upload_file_try_def and_then_def returns_def raise_def called_def outcome_def)

text \<open>The converter that the file name selects (lines 96 to 101), and the call recorded for it.\<close>

lemma upload_file_try_converts:
  assumes "filename file = Some fn" and "read_result file = Inr data"
    and "endswith fn ''.csv'' \<and> convert = convert_csv_to_sqlite env \<and> call = Call_convert_csv_to_sqlite
         \<or> \<not> endswith fn ''.csv'' \<and> endswith fn ''.jsonl'' \<and> convert = convert_jsonl_to_sqlite env
             \<and> call = Call_convert_jsonl_to_sqlite
         \<or> \<not> endswith fn ''.csv'' \<and> \<not> endswith fn ''.jsonl'' \<and> endswith fn ''.json''
             \<and> convert = convert_json_to_sqlite env \<and> call = Call_convert_json_to_sqlite"
  shows "upload_file_try env file w =
           (case convert data (table_name_of_filename env fn) (store w) of
              (Inl e, s') \<Rightarrow>
                (Inl (Exc e),
                 w\<lparr>calls := calls w @ [Call_file_read, call (table_name_of_filename env fn)], store := s'\<rparr>)
            | (Inr result, s') \<Rightarrow>
                (Inr \<lparr>upload_table_name = res_table_name result,
                      upload_table_schema = res_schema result,
                      upload_row_count = res_row_count result,
                      upload_sample_data = res_sample_data result,
                      upload_error = None\<rparr>,
                 w\<lparr>calls := calls w @ [Call_file_read, call (table_name_of_filename env fn)], store := s',
                   logged := logged w @
                     [INFO_file_upload
                        \<lparr>upload_table_name = res_table_name result,
                         upload_table_schema = res_schema result,
                         upload_row_count = res_row_count result,
                         upload_sample_data = res_sample_data result,
                         upload_error = None\<rparr>]\<rparr>))"
proof -
  have ext: "endswith_any fn [''.csv'', ''.json'', ''.jsonl'']"
    using assms(3) by (auto simp: endswith_any_def)
  obtain res s' where run: "convert data (table_name_of_filename env fn) (store w) = (res, s')"
    by (cases "convert data (table_name_of_filename env fn) (store w)")
  show ?thesis
    using assms ext run
    by (cases res)
       (auto simp: upload_file_try_def and_then_def returns_def raise_def called_def outcome_def
          no_await_def on_store_def logger_def)
qed

lemma upload_file_converter_raises:
  assumes "filename file = Some fn" and "read_result file = Inr data"
    and "((endswith fn ''.csv'' \<and> convert = convert_csv_to_sqlite env) \<or>
         (\<not> endswith fn ''.csv'' \<and> endswith fn ''.jsonl'' \<and> convert = convert_jsonl_to_sqlite env) \<or>
         (\<not> endswith fn ''.csv'' \<and> \<not> endswith fn ''.jsonl'' \<and> endswith fn ''.json''
            \<and> convert = convert_json_to_sqlite env))"
    and "convert data (table_name_of_filename env fn) (store w) = (Inl e, s')"
  shows "fst (upload_file env file w) = Inr (upload_failed (str env e))"
proof -
  obtain call where "endswith fn ''.csv'' \<and> convert = convert_csv_to_sqlite env \<and> call = Call_convert_csv_to_sqlite
         \<or> \<not> endswith fn ''.csv'' \<and> endswith fn ''.jsonl'' \<and> convert = convert_jsonl_to_sqlite env
             \<and> call = Call_convert_jsonl_to_sqlite
         \<or> \<not> endswith fn ''.csv'' \<and> \<not> endswith fn ''.jsonl'' \<and> endswith fn ''.json''
             \<and> convert = convert_json_to_sqlite env \<and> call = Call_convert_json_to_sqlite"
    using assms(3) by blast
  from upload_file_try_converts [OF assms(1,2) this, of w]
  show ?thesis
    by (simp add: assms(4) upload_file_catches)
qed

lemma upload_file_converter_returns:
  assumes "filename file = Some fn" and "read_result file = Inr data"
    and "((endswith fn ''.csv'' \<and> convert = convert_csv_to_sqlite env) \<or>
         (\<not> endswith fn ''.csv'' \<and> endswith fn ''.jsonl'' \<and> convert = convert_jsonl_to_sqlite env) \<or>
         (\<not> endswith fn ''.csv'' \<and> \<not> endswith fn ''.jsonl'' \<and> endswith fn ''.json''
            \<and> convert = convert_json_to_sqlite env))"
    and "convert data (table_name_of_filename env fn) (store w) = (Inr result, s')"
  shows "fst (upload_file env file w) =
           Inr \<lparr>upload_table_name = res_table_name result,
                upload_table_schema = res_schema result,
                upload_row_count = res_row_count result,
                upload_sample_data = res_sample_data result,
                upload_error = None\<rparr>"
proof -
  obtain call where "endswith fn ''.csv'' \<and> convert = convert_csv_to_sqlite env \<and> call = Call_convert_csv_to_sqlite
         \<or> \<not> endswith fn ''.csv'' \<and> endswith fn ''.jsonl'' \<and> convert = convert_jsonl_to_sqlite env
             \<and> call = Call_convert_jsonl_to_sqlite
         \<or> \<not> endswith fn ''.csv'' \<and> \<not> endswith fn ''.jsonl'' \<and> endswith fn ''.json''
             \<and> convert = convert_json_to_sqlite env \<and> call = Call_convert_json_to_sqlite"
    using assms(3) by blast
  from upload_file_try_converts [OF assms(1,2) this, of w]
  show ?thesis
    by (simp add: assms(4) upload_file_passes)
qed

text \<open>
  Claim C9, as amended. \<^verbatim>\<open>upload_file\<close> answers every failure that is an instance of
  \<^verbatim>\<open>Exception\<close> with the same response: table name \<^verbatim>\<open>""\<close>, empty schema, row count 0,
  no sample data, and \<^verbatim>\<open>str(e)\<close> as the error. No instance of \<^verbatim>\<open>Exception\<close> leaves the
  handler. This covers each place where the body can fail: a file name that is \<^verbatim>\<open>None\<close>,
  an unsupported extension (whose HTTP 400 is caught and reported as the framework's text of
  it), \<^verbatim>\<open>await file.read()\<close> raising, and the converter chosen by the extension raising.
  What is not an instance of \<^verbatim>\<open>Exception\<close>, as the \<^verbatim>\<open>CancelledError\<close> of a cancelled
  request raised at \<^verbatim>\<open>await file.read()\<close>, is not caught and leaves the handler. When the
  converter returns, the response carries what it returned and no error.
\<close>

theorem upload_file_answers_every_Exception:
  "(\<forall>msg. upload_failed msg =
      \<lparr>upload_table_name = [], upload_table_schema = [], upload_row_count = 0,
       upload_sample_data = [], upload_error = Some msg\<rparr>) \<and>
   (\<forall>e. fst (upload_file env file w) \<noteq> Inl (Exc e)) \<and>
   (\<forall>e. fst (upload_file_try env file w) = Inl (Exc e) \<longrightarrow>
      fst (upload_file env file w) = Inr (upload_failed (str env e))) \<and>
   (\<forall>b. fst (upload_file_try env file w) = Inl (Base b) \<longrightarrow>
      fst (upload_file env file w) = Inl (Base b)) \<and>
   (filename file = None \<longrightarrow>
      fst (upload_file env file w) = Inr (upload_failed (CHR 0x27 # ''NoneType'' @ CHR 0x27 # '' object has no attribute ''
                             @ CHR 0x27 # ''endswith'' @ [CHR 0x27]))) \<and>
   (\<forall>fn. filename file = Some fn \<and> \<not> endswith_any fn [''.csv'', ''.json'', ''.jsonl''] \<longrightarrow>
      fst (upload_file env file w) =
        Inr (upload_failed
               (http_exception_str env 400 ''Only .csv, .json, and .jsonl files are supported''))) \<and>
   (\<forall>fn e. filename file = Some fn \<and> endswith_any fn [''.csv'', ''.json'', ''.jsonl''] \<and>
        read_result file = Inl (Exc e) \<longrightarrow>
      fst (upload_file env file w) = Inr (upload_failed (str env e))) \<and>
   (\<forall>fn b. filename file = Some fn \<and> endswith_any fn [''.csv'', ''.json'', ''.jsonl''] \<and>
        read_result file = Inl (Base b) \<longrightarrow>
      fst (upload_file env file w) = Inl (Base b)) \<and>
   (\<forall>fn data convert e s'.
        filename file = Some fn \<and> read_result file = Inr data \<and>
        ((endswith fn ''.csv'' \<and> convert = convert_csv_to_sqlite env) \<or>
         (\<not> endswith fn ''.csv'' \<and> endswith fn ''.jsonl'' \<and> convert = convert_jsonl_to_sqlite env) \<or>
         (\<not> endswith fn ''.csv'' \<and> \<not> endswith fn ''.jsonl'' \<and> endswith fn ''.json''
            \<and> convert = convert_json_to_sqlite env)) \<and>
        convert data (table_name_of_filename env fn) (store w) = (Inl e, s') \<longrightarrow>
      fst (upload_file env file w) = Inr (upload_failed (str env e))) \<and>
   (\<forall>fn data convert result s'.
        filename file = Some fn \<and> read_result file = Inr data \<and>
        ((endswith fn ''.csv'' \<and> convert = convert_csv_to_sqlite env) \<or>
         (\<not> endswith fn ''.csv'' \<and> endswith fn ''.jsonl'' \<and> convert = convert_jsonl_to_sqlite env) \<or>
         (\<not> endswith fn ''.csv'' \<and> \<not> endswith fn ''.jsonl'' \<and> endswith fn ''.json''
            \<and> convert = convert_json_to_sqlite env)) \<and>
        convert data (table_name_of_filename env fn) (store w) = (Inr result, s') \<longrightarrow>
      fst (upload_file env file w) =
        Inr \<lparr>upload_table_name = res_table_name result,
             upload_table_schema = res_schema result,
             upload_row_count = res_row_count result,
             upload_sample_data = res_sample_data result,
             upload_error = None\<rparr>)"
proof (intro conjI allI impI)
  fix msg
  show "upload_failed msg =
      \<lparr>upload_table_name = [], upload_table_schema = [], upload_row_count = 0,
       upload_sample_data = [], upload_error = Some msg\<rparr>"
    by (simp add: upload_failed_def)
next
  fix e
  show "fst (upload_file env file w) \<noteq> Inl (Exc e)"
    by (rule upload_file_no_Exception)
next
  fix e
  assume "fst (upload_file_try env file w) = Inl (Exc e)"
  then have "upload_file_try env file w = (Inl (Exc e), snd (upload_file_try env file w))"
    by (metis prod.collapse)
  from upload_file_catches [OF this]
  show "fst (upload_file env file w) = Inr (upload_failed (str env e))"
    by simp
next
  fix b
  assume "fst (upload_file_try env file w) = Inl (Base b)"
  then have "upload_file_try env file w = (Inl (Base b), snd (upload_file_try env file w))"
    by (metis prod.collapse)
  from upload_file_unwinds [OF this]
  show "fst (upload_file env file w) = Inl (Base b)"
    by simp
next
  assume "filename file = None"
  then show "fst (upload_file env file w) = Inr (upload_failed (CHR 0x27 # ''NoneType'' @ CHR 0x27 # '' object has no attribute ''
                             @ CHR 0x27 # ''endswith'' @ [CHR 0x27]))"
    by (simp add: upload_file_catches [OF upload_file_try_no_name] str_def)
next
  fix fn
  assume "filename file = Some fn \<and> \<not> endswith_any fn [''.csv'', ''.json'', ''.jsonl'']"
  then have "upload_file_try env file w =
      (Inl (Exc (HTTPException 400 ''Only .csv, .json, and .jsonl files are supported'')), w)"
    by (simp add: upload_file_try_bad_extension)
  then show "fst (upload_file env file w) =
        Inr (upload_failed
               (http_exception_str env 400 ''Only .csv, .json, and .jsonl files are supported''))"
    by (simp add: upload_file_catches str_def)
next
  fix fn e
  assume "filename file = Some fn \<and> endswith_any fn [''.csv'', ''.json'', ''.jsonl''] \<and>
        read_result file = Inl (Exc e)"
  then have "upload_file_try env file w = (Inl (Exc e), w\<lparr>calls := calls w @ [Call_file_read]\<rparr>)"
    by (simp add: upload_file_try_read_raises)
  then show "fst (upload_file env file w) = Inr (upload_failed (str env e))"
    by (simp add: upload_file_catches)
next
  fix fn b
  assume "filename file = Some fn \<and> endswith_any fn [''.csv'', ''.json'', ''.jsonl''] \<and>
        read_result file = Inl (Base b)"
  then have "upload_file_try env file w = (Inl (Base b), w\<lparr>calls := calls w @ [Call_file_read]\<rparr>)"
    by (simp add: upload_file_try_read_raises)
  then show "fst (upload_file env file w) = Inl (Base b)"
    by (simp add: upload_file_unwinds)
next
  fix fn data convert e s'
  assume "filename file = Some fn \<and> read_result file = Inr data \<and>
        ((endswith fn ''.csv'' \<and> convert = convert_csv_to_sqlite env) \<or>
         (\<not> endswith fn ''.csv'' \<and> endswith fn ''.jsonl'' \<and> convert = convert_jsonl_to_sqlite env) \<or>
         (\<not> endswith fn ''.csv'' \<and> \<not> endswith fn ''.jsonl'' \<and> endswith fn ''.json''
            \<and> convert = convert_json_to_sqlite env)) \<and>
        convert data (table_name_of_filename env fn) (store w) = (Inl e, s')"
  then show "fst (upload_file env file w) = Inr (upload_failed (str env e))"
    using upload_file_converter_raises [of "file" fn data convert env w e s'] by blast
next
  fix fn data convert result s'
  assume "filename file = Some fn \<and> read_result file = Inr data \<and>
        ((endswith fn ''.csv'' \<and> convert = convert_csv_to_sqlite env) \<or>
         (\<not> endswith fn ''.csv'' \<and> endswith fn ''.jsonl'' \<and> convert = convert_jsonl_to_sqlite env) \<or>
         (\<not> endswith fn ''.csv'' \<and> \<not> endswith fn ''.jsonl'' \<and> endswith fn ''.json''
            \<and> convert = convert_json_to_sqlite env)) \<and>
        convert data (table_name_of_filename env fn) (store w) = (Inr result, s')"
  then show "fst (upload_file env file w) =
        Inr \<lparr>upload_table_name = res_table_name result,
             upload_table_schema = res_schema result,
             upload_row_count = res_row_count result,
             upload_sample_data = res_sample_data result,
             upload_error = None\<rparr>"
    using upload_file_converter_returns [of "file" fn data convert env w result s'] by blast
qed

theorem upload_file_answers_every_Exception_witness:
  "fst (upload_file demo_env \<lparr>filename = Some ''notes.txt'', read_result = Inr ''id''\<rparr> demo_world) =
     Inr \<lparr>upload_table_name = [], upload_table_schema = [], upload_row_count = 0,
          upload_sample_data = [], upload_error = Some ''400: Only .csv, .json, and .jsonl files are supported''\<rparr> \<and>
   fst (upload_file demo_env \<lparr>filename = None, read_result = Inr ''id''\<rparr> demo_world) =
     Inr \<lparr>upload_table_name = [], upload_table_schema = [], upload_row_count = 0,
          upload_sample_data = [], upload_error = Some (CHR 0x27 # ''NoneType'' @ CHR 0x27 # '' object has no attribute ''
                             @ CHR 0x27 # ''endswith'' @ [CHR 0x27])\<rparr> \<and>
   fst (upload_file demo_env \<lparr>filename = Some ''data.csv'', read_result = Inl (Exc (Exception ''stream closed''))\<rparr> demo_world) =
     Inr \<lparr>upload_table_name = [], upload_table_schema = [], upload_row_count = 0,
          upload_sample_data = [], upload_error = Some ''stream closed''\<rparr> \<and>
   convert_jsonl_to_sqlite plain_env ''id'' ''data'' (store secured_world) =
     (Inl (Exception ''no converter''), store secured_world) \<and>
   fst (upload_file plain_env \<lparr>filename = Some ''data.jsonl'', read_result = Inr ''id''\<rparr> secured_world) =
     Inr \<lparr>upload_table_name = [], upload_table_schema = [], upload_row_count = 0,
          upload_sample_data = [], upload_error = Some ''no converter''\<rparr> \<and>
   fst (upload_file demo_env \<lparr>filename = Some ''data.csv'', read_result = Inl (Base CancelledError)\<rparr> demo_world) =
     Inl (Base CancelledError) \<and>
   fst (upload_file demo_env \<lparr>filename = Some ''My Data.csv'', read_result = Inr ''id''\<rparr> demo_world) =
     Inr \<lparr>upload_table_name = ''my_data'', upload_table_schema = [], upload_row_count = 0,
          upload_sample_data = [], upload_error = None\<rparr>"
proof -
  have shape: "\<And>msg. upload_failed msg =
      \<lparr>upload_table_name = [], upload_table_schema = [], upload_row_count = 0,
       upload_sample_data = [], upload_error = Some msg\<rparr>"
    using upload_file_answers_every_Exception [of demo_env undefined demo_world]
    by simp
  have msgs: "http_exception_str demo_env 400 ''Only .csv, .json, and .jsonl files are supported'' =
      ''400: Only .csv, .json, and .jsonl files are supported''"
    "str demo_env (Exception ''stream closed'') = ''stream closed''"
    "str plain_env (Exception ''no converter'') = ''no converter''"
    by (simp_all add: demo_env_def str_def framework_str_def status_code_text_def)
  have names: "table_name_of_filename plain_env ''data.jsonl'' = ''data''"
    "table_name_of_filename demo_env ''My Data.csv'' = ''my_data''"
    by (simp_all add: table_name_of_filename_def plain_env_def demo_env_def rsplit_dot_head_def
        ascii_lower_def lower_char_def replace_space_def)
  have raises: "convert_jsonl_to_sqlite plain_env ''id'' ''data'' (store secured_world) =
     (Inl (Exception ''no converter''), store secured_world)"
    by (simp add: plain_env_def)
  have a: "filename \<lparr>filename = Some ''notes.txt'', read_result = Inr ''id''\<rparr> = Some ''notes.txt'' \<and>
      \<not> endswith_any ''notes.txt'' [''.csv'', ''.json'', ''.jsonl'']"
    by (simp add: endswith_any_def endswith_def)
  have b: "filename \<lparr>filename = None, read_result = Inr ''id''\<rparr> = None"
    by simp
  have c: "filename \<lparr>filename = Some ''data.csv'', read_result = Inl (Exc (Exception ''stream closed''))\<rparr> = Some ''data.csv'' \<and>
      endswith_any ''data.csv'' [''.csv'', ''.json'', ''.jsonl''] \<and>
      read_result \<lparr>filename = Some ''data.csv'', read_result = Inl (Exc (Exception ''stream closed''))\<rparr> = Inl (Exc (Exception ''stream closed''))"
    by (simp add: endswith_any_def endswith_def)
  have d: "filename \<lparr>filename = Some ''data.jsonl'', read_result = Inr ''id''\<rparr> = Some ''data.jsonl'' \<and>
      read_result \<lparr>filename = Some ''data.jsonl'', read_result = Inr ''id''\<rparr> = Inr ''id'' \<and>
      ((endswith ''data.jsonl'' ''.csv'' \<and> convert_jsonl_to_sqlite plain_env = convert_csv_to_sqlite plain_env) \<or>
       (\<not> endswith ''data.jsonl'' ''.csv'' \<and> endswith ''data.jsonl'' ''.jsonl''
          \<and> convert_jsonl_to_sqlite plain_env = convert_jsonl_to_sqlite plain_env) \<or>
       (\<not> endswith ''data.jsonl'' ''.csv'' \<and> \<not> endswith ''data.jsonl'' ''.jsonl'' \<and> endswith ''data.jsonl'' ''.json''
          \<and> convert_jsonl_to_sqlite plain_env = convert_json_to_sqlite plain_env)) \<and>
      convert_jsonl_to_sqlite plain_env ''id'' (table_name_of_filename plain_env ''data.jsonl'') (store secured_world) =
        (Inl (Exception ''no converter''), store secured_world)"
    by (simp add: endswith_def names raises)
  have e: "filename \<lparr>filename = Some ''data.csv'', read_result = Inl (Base CancelledError)\<rparr> = Some ''data.csv'' \<and>
      endswith_any ''data.csv'' [''.csv'', ''.json'', ''.jsonl''] \<and>
      read_result \<lparr>filename = Some ''data.csv'', read_result = Inl (Base CancelledError)\<rparr> = Inl (Base CancelledError)"
    by (simp add: endswith_any_def endswith_def)
  have f: "filename \<lparr>filename = Some ''My Data.csv'', read_result = Inr ''id''\<rparr> = Some ''My Data.csv'' \<and>
      read_result \<lparr>filename = Some ''My Data.csv'', read_result = Inr ''id''\<rparr> = Inr ''id'' \<and>
      ((endswith ''My Data.csv'' ''.csv'' \<and> convert_csv_to_sqlite demo_env = convert_csv_to_sqlite demo_env) \<or>
       (\<not> endswith ''My Data.csv'' ''.csv'' \<and> endswith ''My Data.csv'' ''.jsonl''
          \<and> convert_csv_to_sqlite demo_env = convert_jsonl_to_sqlite demo_env) \<or>
       (\<not> endswith ''My Data.csv'' ''.csv'' \<and> \<not> endswith ''My Data.csv'' ''.jsonl'' \<and> endswith ''My Data.csv'' ''.json''
          \<and> convert_csv_to_sqlite demo_env = convert_json_to_sqlite demo_env)) \<and>
      convert_csv_to_sqlite demo_env ''id'' (table_name_of_filename demo_env ''My Data.csv'') (store demo_world) =
        (Inr \<lparr>res_table_name = ''my_data'', res_schema = [], res_row_count = 0, res_sample_data = []\<rparr>,
         ''my_data'' # store demo_world)"
    by (simp add: endswith_def names) (simp add: demo_env_def)
  have "fst (upload_file demo_env \<lparr>filename = Some ''notes.txt'', read_result = Inr ''id''\<rparr> demo_world) =
     Inr \<lparr>upload_table_name = [], upload_table_schema = [], upload_row_count = 0,
          upload_sample_data = [], upload_error = Some ''400: Only .csv, .json, and .jsonl files are supported''\<rparr>"
    using upload_file_answers_every_Exception [of demo_env _ demo_world,
        THEN conjunct2, THEN conjunct2, THEN conjunct2, THEN conjunct2, THEN conjunct2, THEN conjunct1, rule_format, OF a]
    by (simp add: msgs shape)
  moreover have "fst (upload_file demo_env \<lparr>filename = None, read_result = Inr ''id''\<rparr> demo_world) =
     Inr \<lparr>upload_table_name = [], upload_table_schema = [], upload_row_count = 0,
          upload_sample_data = [], upload_error = Some (CHR 0x27 # ''NoneType'' @ CHR 0x27 # '' object has no attribute ''
                             @ CHR 0x27 # ''endswith'' @ [CHR 0x27])\<rparr>"
    using upload_file_answers_every_Exception [of demo_env _ demo_world,
        THEN conjunct2, THEN conjunct2, THEN conjunct2, THEN conjunct2, THEN conjunct1, rule_format, OF b]
    by (simp add: shape)
  moreover have "fst (upload_file demo_env \<lparr>filename = Some ''data.csv'', read_result = Inl (Exc (Exception ''stream closed''))\<rparr> demo_world) =
     Inr \<lparr>upload_table_name = [], upload_table_schema = [], upload_row_count = 0,
          upload_sample_data = [], upload_error = Some ''stream closed''\<rparr>"
    using upload_file_answers_every_Exception [of demo_env _ demo_world,
        THEN conjunct2, THEN conjunct2, THEN conjunct2, THEN conjunct2, THEN conjunct2, THEN conjunct2, THEN conjunct1, rule_format, OF c]
    by (simp add: msgs shape)
  moreover have "fst (upload_file plain_env \<lparr>filename = Some ''data.jsonl'', read_result = Inr ''id''\<rparr> secured_world) =
     Inr \<lparr>upload_table_name = [], upload_table_schema = [], upload_row_count = 0,
          upload_sample_data = [], upload_error = Some ''no converter''\<rparr>"
    using upload_file_answers_every_Exception [of plain_env _ secured_world,
        THEN conjunct2, THEN conjunct2, THEN conjunct2, THEN conjunct2, THEN conjunct2, THEN conjunct2, THEN conjunct2, THEN conjunct2, THEN conjunct1, rule_format, OF d]
    by (simp add: msgs shape)
  moreover have "fst (upload_file demo_env \<lparr>filename = Some ''data.csv'', read_result = Inl (Base CancelledError)\<rparr> demo_world) =
     Inl (Base CancelledError)"
    using upload_file_answers_every_Exception [of demo_env _ demo_world,
        THEN conjunct2, THEN conjunct2, THEN conjunct2, THEN conjunct2, THEN conjunct2, THEN conjunct2, THEN conjunct2, THEN conjunct1, rule_format, OF e] .
  moreover have "fst (upload_file demo_env \<lparr>filename = Some ''My Data.csv'', read_result = Inr ''id''\<rparr> demo_world) =
     Inr \<lparr>upload_table_name = ''my_data'', upload_table_schema = [], upload_row_count = 0,
          upload_sample_data = [], upload_error = None\<rparr>"
    using upload_file_answers_every_Exception [of demo_env _ demo_world,
        THEN conjunct2, THEN conjunct2, THEN conjunct2, THEN conjunct2, THEN conjunct2, THEN conjunct2, THEN conjunct2, THEN conjunct2, THEN conjunct2, rule_format, OF f]
    by simp
  ultimately show ?thesis
    using raises by simp
qed

text \<open>
  The claim as first stated, that the handler propagates no exception, fails: when the
  request is cancelled while the handler awaits the content of the file, the
  \<^verbatim>\<open>CancelledError\<close> passes \<^verbatim>\<open>except Exception\<close> and no response is returned.
\<close>

theorem cancelled_upload_propagates:
  "upload_file demo_env \<lparr>filename = Some ''data.csv'', read_result = Inl (Base CancelledError)\<rparr> demo_world =
     (Inl (Base CancelledError), demo_world\<lparr>calls := [Call_file_read]\<rparr>)"
  by (simp add: upload_file_def upload_file_try_def except_Exception_def no_await_def and_then_def
      returns_def raise_def called_def outcome_def endswith_any_def endswith_def demo_world_def)

subsection \<open>The schema endpoint\<close>

lemma schema_loop_run:
  "schema_loop env acc items w =
     (Inr (acc @ map (\<lambda>(k, table_name, info). table_schema (now env k) table_name info)
                    (enumerate (ticks w) items)),
      w\<lparr>ticks := ticks w + length items\<rparr>)"
proof (induction items arbitrary: acc w)
  case Nil
  then show ?case by (simp add: returns_def)
next
  case (Cons item rest)
  obtain table_name info where item: "item = (table_name, info)"
    by (cases item)
  show ?case
    by (simp add: item and_then_def datetime_now_def Cons.IH)
qed

lemma schema_endpoint_success:
  assumes "get_database_schema env (store w) = Inr schema"
  shows "get_database_schema_endpoint env w =
           (Inr \<lparr>response_tables =
                   map (\<lambda>(k, table_name, info). table_schema (now env k) table_name info)
                       (enumerate (ticks w) (tables schema)),
                 total_tables = length (tables schema), schema_error = None\<rparr>,
            w\<lparr>calls := calls w @ [Call_get_database_schema],
              ticks := ticks w + length (tables schema),
              logged := logged w @ [INFO_schema_retrieved (length (tables schema))]\<rparr>)"
  using assms
  by (simp add: get_database_schema_endpoint_def get_database_schema_endpoint_try_def
      try_except_def and_then_def called_def reading_def returns_def logger_def schema_loop_run)

lemma schema_endpoint_failure:
  assumes "get_database_schema env (store w) = Inl e"
  shows "get_database_schema_endpoint env w =
           (Inr \<lparr>response_tables = [], total_tables = 0, schema_error = Some (str env e)\<rparr>,
            w\<lparr>calls := calls w @ [Call_get_database_schema],
              logged := logged w @ [ERROR (''[ERROR] Schema retrieval failed: '' @ str env e),
                                    ERROR (''[ERROR] Full traceback:'' @ CHR 0x0A # format_exc env e)]\<rparr>)"
  using assms
  by (simp add: get_database_schema_endpoint_def get_database_schema_endpoint_try_def
      try_except_def and_then_def called_def reading_def returns_def logger_def)

lemma column_infos_pairs:
  "map (\<lambda>c. (column_name c, column_type c)) (column_infos cols) = cols"
  by (induction cols) (auto simp: column_infos_def)

lemma table_schema_explicit:
  "table_schema t table_name info =
     \<lparr>schema_name = table_name,
      schema_columns =
        map (\<lambda>(col_name, col_type).
               \<lparr>column_name = col_name, column_type = col_type, nullable = True, primary_key = False\<rparr>)
            (info_columns info),
      schema_row_count = (case info_row_count info of None \<Rightarrow> 0 | Some n \<Rightarrow> n),
      created_at = t\<rparr>"
  by (simp add: table_schema_def column_infos_def)

text \<open>
  Claim C10. When \<^verbatim>\<open>get_database_schema()\<close> returns, the response of the schema endpoint
  is this one: the tables of the schema, in order, each with the columns the schema gives
  for it, every column with its name and declared type and with \<open>nullable\<close> true and
  \<open>primary_key\<close> false; the \<open>created_at\<close> of the table is the value of \<^verbatim>\<open>datetime.now()\<close>
  read in its iteration of the loop, which is a time during the request, whatever the
  store holds; the row count is the one of the schema, or 0. The handler reads the clock
  once for each table. In every case the endpoint answers, and in its response the i-th
  table has the i-th reading of the clock and no column is reported as not nullable or as
  a primary key.
\<close>

theorem schema_endpoint_created_at_is_now:
  "(\<forall>schema. get_database_schema env (store w) = Inr schema \<longrightarrow>
      fst (get_database_schema_endpoint env w) =
        Inr \<lparr>response_tables =
               map (\<lambda>(k, table_name, info).
                      \<lparr>schema_name = table_name,
                       schema_columns =
                         map (\<lambda>(col_name, col_type).
                                \<lparr>column_name = col_name, column_type = col_type,
                                 nullable = True, primary_key = False\<rparr>)
                             (info_columns info),
                       schema_row_count = (case info_row_count info of None \<Rightarrow> 0 | Some n \<Rightarrow> n),
                       created_at = now env k\<rparr>)
                   (enumerate (ticks w) (tables schema)),
             total_tables = length (tables schema),
             schema_error = None\<rparr> \<and>
      ticks (snd (get_database_schema_endpoint env w)) = ticks w + length (tables schema)) \<and>
   (\<exists>r. fst (get_database_schema_endpoint env w) = Inr r \<and>
      (\<forall>schema. get_database_schema env (store w) = Inr schema \<longrightarrow>
         map schema_name (response_tables r) = map fst (tables schema) \<and>
         map (\<lambda>t. map (\<lambda>c. (column_name c, column_type c)) (schema_columns t)) (response_tables r) =
           map (\<lambda>(table_name, info). info_columns info) (tables schema)) \<and>
      (\<forall>i < length (response_tables r).
         created_at (response_tables r ! i) = now env (ticks w + i)) \<and>
      (\<forall>t \<in> set (response_tables r). \<forall>c \<in> set (schema_columns t). nullable c \<and> \<not> primary_key c))"
proof (cases "get_database_schema env (store w)")
  case (Inl e)
  show ?thesis
    by (simp add: schema_endpoint_failure [OF Inl] Inl)
next
  case (Inr schema)
  let ?tables = "map (\<lambda>(k, table_name, info). table_schema (now env k) table_name info)
                     (enumerate (ticks w) (tables schema))"
  have explicit: "?tables =
      map (\<lambda>(k, table_name, info).
             \<lparr>schema_name = table_name,
              schema_columns =
                map (\<lambda>(col_name, col_type).
                       \<lparr>column_name = col_name, column_type = col_type,
                        nullable = True, primary_key = False\<rparr>)
                    (info_columns info),
              schema_row_count = (case info_row_count info of None \<Rightarrow> 0 | Some n \<Rightarrow> n),
              created_at = now env k\<rparr>)
          (enumerate (ticks w) (tables schema))"
    by (simp add: table_schema_explicit)
  have names: "map schema_name ?tables = map fst (tables schema)"
    by (rule nth_equalityI) (simp_all add: nth_enumerate_eq table_schema_def split: prod.splits)
  have columns: "map (\<lambda>t. map (\<lambda>c. (column_name c, column_type c)) (schema_columns t)) ?tables =
      map (\<lambda>(table_name, info). info_columns info) (tables schema)"
    by (rule nth_equalityI)
       (simp_all add: nth_enumerate_eq table_schema_def column_infos_pairs split: prod.splits)
  have stamps: "\<forall>i < length ?tables. created_at (?tables ! i) = now env (ticks w + i)"
    by (simp add: nth_enumerate_eq table_schema_def split: prod.splits)
  have cols: "\<forall>t \<in> set ?tables. \<forall>c \<in> set (schema_columns t). nullable c \<and> \<not> primary_key c"
    by (auto simp: table_schema_def column_infos_def)
  have run: "fst (get_database_schema_endpoint env w) =
      Inr \<lparr>response_tables = ?tables, total_tables = length (tables schema), schema_error = None\<rparr>"
    and reads: "ticks (snd (get_database_schema_endpoint env w)) = ticks w + length (tables schema)"
    by (simp_all add: schema_endpoint_success [OF Inr])
  have first: "\<forall>schema'. get_database_schema env (store w) = Inr schema' \<longrightarrow>
      fst (get_database_schema_endpoint env w) =
        Inr \<lparr>response_tables =
               map (\<lambda>(k, table_name, info).
                      \<lparr>schema_name = table_name,
                       schema_columns =
                         map (\<lambda>(col_name, col_type).
                                \<lparr>column_name = col_name, column_type = col_type,
                                 nullable = True, primary_key = False\<rparr>)
                             (info_columns info),
                       schema_row_count = (case info_row_count info of None \<Rightarrow> 0 | Some n \<Rightarrow> n),
                       created_at = now env k\<rparr>)
                   (enumerate (ticks w) (tables schema')),
             total_tables = length (tables schema'),
             schema_error = None\<rparr> \<and>
      ticks (snd (get_database_schema_endpoint env w)) = ticks w + length (tables schema')"
    using run reads explicit by (simp add: Inr)
  have second: "\<exists>r. fst (get_database_schema_endpoint env w) = Inr r \<and>
      (\<forall>schema. get_database_schema env (store w) = Inr schema \<longrightarrow>
         map schema_name (response_tables r) = map fst (tables schema) \<and>
         map (\<lambda>t. map (\<lambda>c. (column_name c, column_type c)) (schema_columns t)) (response_tables r) =
           map (\<lambda>(table_name, info). info_columns info) (tables schema)) \<and>
      (\<forall>i < length (response_tables r).
         created_at (response_tables r ! i) = now env (ticks w + i)) \<and>
      (\<forall>t \<in> set (response_tables r). \<forall>c \<in> set (schema_columns t). nullable c \<and> \<not> primary_key c)"
    using names columns stamps cols
    by (intro exI [of _ "\<lparr>response_tables = ?tables, total_tables = length (tables schema),
                          schema_error = None\<rparr>"])
       (simp add: run Inr)
  from first second show ?thesis
    by (rule conjI)
qed

theorem schema_endpoint_created_at_is_now_witness:
  "get_database_schema demo_env (store demo_world) =
     Inr \<lparr>tables = [(''users'', \<lparr>info_columns = [(''id'', ''INTEGER'')], info_row_count = None\<rparr>),
                     (''orders'', \<lparr>info_columns = [(''id'', ''INTEGER'')], info_row_count = None\<rparr>)]\<rparr> \<and>
   now demo_env (ticks demo_world) = 0 \<and> now demo_env (ticks demo_world + 1) = 1000 \<and>
   fst (get_database_schema_endpoint demo_env demo_world) =
     Inr \<lparr>response_tables =
            [\<lparr>schema_name = ''users'',
              schema_columns = [\<lparr>column_name = ''id'', column_type = ''INTEGER'',
                                 nullable = True, primary_key = False\<rparr>],
              schema_row_count = 0, created_at = 0\<rparr>,
             \<lparr>schema_name = ''orders'',
              schema_columns = [\<lparr>column_name = ''id'', column_type = ''INTEGER'',
                                 nullable = True, primary_key = False\<rparr>],
              schema_row_count = 0, created_at = 1000\<rparr>],
          total_tables = 2, schema_error = None\<rparr> \<and>
   ticks (snd (get_database_schema_endpoint demo_env demo_world)) = 2 \<and>
   (\<exists>r. fst (get_database_schema_endpoint demo_env demo_world) = Inr r \<and>
      created_at (response_tables r ! 1) = now demo_env (ticks demo_world + 1) \<and>
      list_all (\<lambda>t. list_all (\<lambda>c. nullable c \<and> \<not> primary_key c) (schema_columns t))
        (response_tables r))"
proof -
  have schema: "get_database_schema demo_env (store demo_world) =
     Inr \<lparr>tables = [(''users'', \<lparr>info_columns = [(''id'', ''INTEGER'')], info_row_count = None\<rparr>),
                     (''orders'', \<lparr>info_columns = [(''id'', ''INTEGER'')], info_row_count = None\<rparr>)]\<rparr>"
    by (simp add: demo_env_def demo_world_def)
  have clock: "now demo_env 0 = 0" "now demo_env (Suc 0) = 1000" "ticks demo_world = 0"
    by (simp_all add: demo_env_def demo_world_def)
  note all = schema_endpoint_created_at_is_now [of demo_env demo_world]
  have run: "fst (get_database_schema_endpoint demo_env demo_world) =
     Inr \<lparr>response_tables =
            [\<lparr>schema_name = ''users'',
              schema_columns = [\<lparr>column_name = ''id'', column_type = ''INTEGER'',
                                 nullable = True, primary_key = False\<rparr>],
              schema_row_count = 0, created_at = 0\<rparr>,
             \<lparr>schema_name = ''orders'',
              schema_columns = [\<lparr>column_name = ''id'', column_type = ''INTEGER'',
                                 nullable = True, primary_key = False\<rparr>],
              schema_row_count = 0, created_at = 1000\<rparr>],
          total_tables = 2, schema_error = None\<rparr> \<and>
   ticks (snd (get_database_schema_endpoint demo_env demo_world)) = 2"
    using all [THEN conjunct1, rule_format, OF schema] by (simp add: clock)
  obtain r where r: "fst (get_database_schema_endpoint demo_env demo_world) = Inr r"
    and stamps: "\<forall>i < length (response_tables r).
        created_at (response_tables r ! i) = now demo_env (ticks demo_world + i)"
    and cols: "\<forall>t \<in> set (response_tables r). \<forall>c \<in> set (schema_columns t). nullable c \<and> \<not> primary_key c"
    using all [THEN conjunct2] by (elim exE conjE) (rule that)
  have len: "length (response_tables r) = 2"
    using r run by auto
  have "created_at (response_tables r ! 1) = now demo_env (ticks demo_world + 1)"
    using stamps len by simp
  moreover have "list_all (\<lambda>t. list_all (\<lambda>c. nullable c \<and> \<not> primary_key c) (schema_columns t))
      (response_tables r)"
    using cols by (simp add: list_all_iff)
  ultimately have "\<exists>r. fst (get_database_schema_endpoint demo_env demo_world) = Inr r \<and>
      created_at (response_tables r ! 1) = now demo_env (ticks demo_world + 1) \<and>
      list_all (\<lambda>t. list_all (\<lambda>c. nullable c \<and> \<not> primary_key c) (schema_columns t))
        (response_tables r)"
    using r by (intro exI [of _ r]) simp
  then show ?thesis
    using schema run clock by simp
qed

subsection \<open>Rows and error of a query response\<close>



end
